theory Spec2Isabelle
  imports Complex_Main "HOL-Library.AList"
begin

section \<open>Python and library operations used by app.py\<close>

text \<open>
  An exception value carries its class name and its message (what \<open>str(e)\<close> prints).
\<close>

datatype exn = Exn string string

fun exn_str :: "exn \<Rightarrow> string" where
  "exn_str (Exn cls msg) = msg"

text \<open>
  \<open>range(lo, hi, step)\<close>: a zero step raises ValueError; otherwise the length is
  computed as CPython does and the elements are \<open>lo + i * step\<close>.
\<close>

definition range_len :: "int \<Rightarrow> int \<Rightarrow> int \<Rightarrow> nat" where
  "range_len lo hi step =
     (if 0 < step \<and> lo < hi then nat ((hi - lo - 1) div step + 1)
      else if step < 0 \<and> hi < lo then nat ((lo - hi - 1) div (- step) + 1)
      else 0)"

definition py_range :: "int \<Rightarrow> int \<Rightarrow> int \<Rightarrow> exn + int list" where
  "py_range lo hi step =
     (if step = 0 then Inl (Exn ''ValueError'' ''range() arg 3 must not be zero'')
      else Inr (map (\<lambda>i. lo + int i * step) [0..<range_len lo hi step]))"

text \<open>\<open>str(n)\<close> for integers: decimal digits, with a minus sign for negative numbers.\<close>

fun digits10 :: "nat \<Rightarrow> string" where
  "digits10 n =
     (if n < 10 then [char_of (48 + n)]
      else digits10 (n div 10) @ [char_of (48 + n mod 10)])"

definition str_int :: "int \<Rightarrow> string" where
  "str_int i = (if i < 0 then CHR ''-'' # digits10 (nat (- i)) else digits10 (nat i))"

text \<open>
  \<open>os.path.splitext\<close> (posixpath): the extension starts at the last dot of the last path
  component, unless that component consists of leading dots only up to there.
\<close>

definition rfind :: "char \<Rightarrow> string \<Rightarrow> int" where
  "rfind c s =
     (case filter (\<lambda>i. s ! i = c) (rev [0..<length s]) of
        [] \<Rightarrow> - 1
      | i # _ \<Rightarrow> int i)"

definition splitext :: "string \<Rightarrow> string \<times> string" where
  "splitext p =
     (let sepIndex = rfind (CHR ''/'') p;
          dotIndex = rfind (CHR ''.'') p
      in if sepIndex < dotIndex \<and>
            list_ex (\<lambda>i. p ! i \<noteq> CHR ''.'') [nat (sepIndex + 1)..<nat dotIndex]
         then (take (nat dotIndex) p, drop (nat dotIndex) p)
         else (p, []))"

text \<open>\<open>s.replace("/", "_")\<close>.\<close>

definition replace_slash :: "string \<Rightarrow> string" where
  "replace_slash s = map (\<lambda>c. if c = CHR ''/'' then CHR ''_'' else c) s"

text \<open>
  \<open>s.lower()\<close> and \<open>s.endswith(t)\<close>. Names are byte strings; only the ASCII capitals
  have a lower-case form that can match the ASCII suffixes the program tests for.
\<close>

definition lower_char :: "char \<Rightarrow> char" where
  "lower_char c =
     (let n = (of_char c :: nat) in if 65 \<le> n \<and> n \<le> 90 then char_of (n + 32) else c)"

definition lower :: "string \<Rightarrow> string" where
  "lower s = map lower_char s"

definition endswith :: "string \<Rightarrow> string \<Rightarrow> bool" where
  "endswith s suf = (length suf \<le> length s \<and> drop (length s - length suf) s = suf)"

section \<open>The world the program runs in\<close>

text \<open>
  A patch file holds the crop \<open>(left, upper, right, lower)\<close> of a source blob.
\<close>

datatype patch = Patch string "int \<times> int \<times> int \<times> int"

text \<open>Calls that leave the process, in the order they are made.\<close>

datatype event =
    ListBlobs string
  | DownloadBlob string string
  | SavePatch string string patch
  | Task string
  | EpochStart int
  | TrainStep int
  | SaveCheckpoint string
  | UploadBlob string string
  | SaveBackbone string

text \<open>
  \<open>remote\<close>: container name to its blobs (None: no such container);
  \<open>dirs\<close>: local directory to its entries (None: it does not exist);
  \<open>files\<close>: local files written by \<open>torch.save\<close>, by path.
\<close>

record 'b world =
  remote :: "string \<Rightarrow> (string \<times> 'b) list option"
  dirs :: "string \<Rightarrow> (string \<times> patch) list option"
  files :: "string \<Rightarrow> 'b option"
  log :: "event list"

text \<open>
  What the libraries do that the program cannot decide: which calls fail
  (None: the call does not fail), and what \<open>Image.open(...).size\<close> returns.
\<close>

record 'b platform =
  connect_err :: "string \<Rightarrow> exn option"
  mkdir_err :: "string \<Rightarrow> exn option"
  list_err :: "string \<Rightarrow> exn option"
  get_err :: "string \<Rightarrow> string \<Rightarrow> exn option"
  put_err :: "string \<Rightarrow> string \<Rightarrow> exn option"
  create_err :: "string \<Rightarrow> exn option"
  image_open :: "'b \<Rightarrow> exn + (nat \<times> nat)"
  patch_err :: "string \<Rightarrow> nat \<Rightarrow> exn option"

definition download_blob ::
  "'b platform \<Rightarrow> string \<Rightarrow> string \<Rightarrow> 'b world \<Rightarrow> 'b world \<times> (exn + 'b)" where
  "download_blob pf container blob w =
     (let w' = w\<lparr>log := log w @ [DownloadBlob container blob]\<rparr>
      in case get_err pf container blob of
           Some e \<Rightarrow> (w', Inl e)
         | None \<Rightarrow>
             (case remote w container of
                None \<Rightarrow> (w', Inl (Exn ''ResourceNotFoundError'' ''ContainerNotFound''))
              | Some bs \<Rightarrow>
                  (case map_of bs blob of
                     None \<Rightarrow> (w', Inl (Exn ''ResourceNotFoundError'' ''BlobNotFound''))
                   | Some d \<Rightarrow> (w', Inr d))))"

section \<open>process_blob\<close>

definition patch_filename :: "string \<Rightarrow> nat \<Rightarrow> string" where
  "patch_filename blob_name patch_num =
     replace_slash (fst (splitext blob_name)) @ ''_patch_'' @ str_int (int patch_num) @ ''.png''"

text \<open>
  The body of the inner loop: crop, convert and save one patch. \<open>save_path\<close> is
  \<open>os.path.join(local_target_dir, patch_filename)\<close>; the file name holds no path separator,
  so the file is an entry of \<open>local_target_dir\<close>.
\<close>

definition save_patch ::
  "'b platform \<Rightarrow> string \<Rightarrow> string \<Rightarrow> int \<Rightarrow> int \<Rightarrow> int \<Rightarrow> nat \<Rightarrow> 'b world \<Rightarrow> 'b world \<times> exn option" where
  "save_patch pf blob_name local_target_dir patch_size x y patch_num w =
     (let box = (x, y, x + patch_size, y + patch_size);
          p = Patch blob_name box;
          f = patch_filename blob_name patch_num
      in case patch_err pf blob_name patch_num of
           Some e \<Rightarrow> (w, Some e)
         | None \<Rightarrow>
             (case dirs w local_target_dir of
                None \<Rightarrow> (w, Some (Exn ''FileNotFoundError'' ''No such file or directory''))
              | Some es \<Rightarrow>
                  (w\<lparr>dirs := (dirs w)(local_target_dir \<mapsto> AList.update f p es),
                     log := log w @ [SavePatch local_target_dir f p]\<rparr>, None)))"

text \<open>\<open>for x in range(0, width - patch_size + 1, patch_size)\<close>, over the values of the range.\<close>

fun cols_loop ::
  "'b platform \<Rightarrow> string \<Rightarrow> string \<Rightarrow> int \<Rightarrow> int \<Rightarrow> int list \<Rightarrow> 'b world \<times> nat \<Rightarrow> 'b world \<times> (exn + nat)" where
  "cols_loop pf blob_name dir patch_size y [] (w, patch_num) = (w, Inr patch_num)"
| "cols_loop pf blob_name dir patch_size y (x # xs) (w, patch_num) =
     (case save_patch pf blob_name dir patch_size x y patch_num w of
        (w', Some e) \<Rightarrow> (w', Inl e)
      | (w', None) \<Rightarrow> cols_loop pf blob_name dir patch_size y xs (w', patch_num + 1))"

text \<open>\<open>for y in range(0, height - patch_size + 1, patch_size)\<close>.\<close>

fun rows_loop ::
  "'b platform \<Rightarrow> string \<Rightarrow> string \<Rightarrow> int \<Rightarrow> int \<Rightarrow> int list \<Rightarrow> 'b world \<times> nat \<Rightarrow> 'b world \<times> (exn + nat)" where
  "rows_loop pf blob_name dir patch_size width [] (w, patch_num) = (w, Inr patch_num)"
| "rows_loop pf blob_name dir patch_size width (y # ys) (w, patch_num) =
     (case py_range 0 (width - patch_size + 1) patch_size of
        Inl e \<Rightarrow> (w, Inl e)
      | Inr xs \<Rightarrow>
          (case cols_loop pf blob_name dir patch_size y xs (w, patch_num) of
             (w', Inl e) \<Rightarrow> (w', Inl e)
           | (w', Inr n) \<Rightarrow> rows_loop pf blob_name dir patch_size width ys (w', n)))"

text \<open>The \<open>try\<close> block of \<open>process_blob\<close>: Inl is the exception it raises.\<close>

definition process_blob_try ::
  "'b platform \<Rightarrow> string \<Rightarrow> string \<Rightarrow> string \<Rightarrow> int \<Rightarrow> 'b world \<Rightarrow> 'b world \<times> (exn + nat)" where
  "process_blob_try pf blob_name source_container local_target_dir patch_size w =
     (case download_blob pf source_container blob_name w of
        (w1, Inl e) \<Rightarrow> (w1, Inl e)
      | (w1, Inr image_bytes) \<Rightarrow>
          (case image_open pf image_bytes of
             Inl e \<Rightarrow> (w1, Inl e)
           | Inr (width, height) \<Rightarrow>
               (case py_range 0 (int height - patch_size + 1) patch_size of
                  Inl e \<Rightarrow> (w1, Inl e)
                | Inr ys \<Rightarrow>
                    rows_loop pf blob_name local_target_dir patch_size (int width) ys (w1, 0))))"

text \<open>
  \<open>process_blob(args)\<close>. The client is built before the \<open>try\<close>, so its failure leaves the
  function as an exception (Inl); everything raised inside the \<open>try\<close> becomes the
  returned message.
\<close>

definition process_blob ::
  "'b platform \<Rightarrow> string \<times> string \<times> string \<times> string \<times> int \<Rightarrow> 'b world \<Rightarrow> 'b world \<times> (exn + string)" where
  "process_blob pf args w =
     (case args of (blob_name, connection_string, source_container, local_target_dir, patch_size) \<Rightarrow>
        (case connect_err pf connection_string of
           Some e \<Rightarrow> (w, Inl e)
         | None \<Rightarrow>
             (case process_blob_try pf blob_name source_container local_target_dir patch_size w of
                (w', Inl e) \<Rightarrow> (w', Inr (''Failed to process '' @ blob_name @ '': '' @ exn_str e))
              | (w', Inr n) \<Rightarrow> (w', Inr (''Processed '' @ blob_name)))))"



section \<open>preprocess_and_save_locally\<close>

definition makedirs :: "'b platform \<Rightarrow> string \<Rightarrow> 'b world \<Rightarrow> 'b world \<times> exn option" where
  "makedirs pf d w =
     (case mkdir_err pf d of
        Some e \<Rightarrow> (w, Some e)
      | None \<Rightarrow>
          (case dirs w d of
             None \<Rightarrow> (w\<lparr>dirs := (dirs w)(d \<mapsto> [])\<rparr>, None)
           | Some es \<Rightarrow> (w, None)))"

definition list_blobs :: "'b platform \<Rightarrow> string \<Rightarrow> 'b world \<Rightarrow> 'b world \<times> (exn + string list)" where
  "list_blobs pf container w =
     (let w' = w\<lparr>log := log w @ [ListBlobs container]\<rparr>
      in case list_err pf container of
           Some e \<Rightarrow> (w', Inl e)
         | None \<Rightarrow>
             (case remote w container of
                None \<Rightarrow> (w', Inl (Exn ''ResourceNotFoundError'' ''ContainerNotFound''))
              | Some bs \<Rightarrow> (w', Inr (map fst bs))))"

text \<open>\<open>blob.name.lower().endswith(('jpg', 'jpeg', 'png'))\<close>.\<close>

definition is_image_blob :: "string \<Rightarrow> bool" where
  "is_image_blob name = list_ex (endswith (lower name)) [''jpg'', ''jpeg'', ''png'']"

text \<open>
  \<open>pool.imap_unordered(process_blob, tasks)\<close>, consumed to the end. Each worker process runs
  one task at a time to completion; the model runs the tasks one after the other, in the
  order of the list. A task that raises makes the consuming loop raise.
\<close>

fun pool_imap ::
  "'b platform \<Rightarrow> (string \<times> string \<times> string \<times> string \<times> int) list \<Rightarrow> 'b world \<Rightarrow> 'b world \<times> (exn + string list)" where
  "pool_imap pf [] w = (w, Inr [])"
| "pool_imap pf (t # ts) w =
     (case process_blob pf t (w\<lparr>log := log w @ [Task (fst t)]\<rparr>) of
        (w', Inl e) \<Rightarrow> (w', Inl e)
      | (w', Inr msg) \<Rightarrow>
          (case pool_imap pf ts w' of
             (w'', Inl e) \<Rightarrow> (w'', Inl e)
           | (w'', Inr msgs) \<Rightarrow> (w'', Inr (msg # msgs))))"

text \<open>The result is the exception the function raises, if any.\<close>

definition preprocess_and_save_locally ::
  "'b platform \<Rightarrow> string \<Rightarrow> string \<Rightarrow> string \<Rightarrow> int \<Rightarrow> 'b world \<Rightarrow> 'b world \<times> exn option" where
  "preprocess_and_save_locally pf connection_string source_container local_target_dir patch_size w =
     (if (case dirs w local_target_dir of None \<Rightarrow> False | Some es \<Rightarrow> 0 < length es)
      then (w, None)
      else
        (case makedirs pf local_target_dir w of
           (w1, Some e) \<Rightarrow> (w1, Some e)
         | (w1, None) \<Rightarrow>
             (case connect_err pf connection_string of
                Some e \<Rightarrow> (w1, Some e)
              | None \<Rightarrow>
                  (case list_blobs pf source_container w1 of
                     (w2, Inl e) \<Rightarrow> (w2, Some e)
                   | (w2, Inr names) \<Rightarrow>
                       (let image_blobs = filter is_image_blob names
                        in if image_blobs = [] then (w2, None)
                           else
                             (let tasks = map (\<lambda>blob_name. (blob_name, connection_string,
                                            source_container, local_target_dir, patch_size)) image_blobs
                              in case pool_imap pf tasks w2 of
                                   (w3, Inl e) \<Rightarrow> (w3, Some e)
                                 | (w3, Inr msgs) \<Rightarrow> (w3, None)))))))"

text \<open>
  The statement "the name has an image extension, case-insensitively one of jpg, jpeg, png",
  with the extension as \<open>os.path.splitext\<close> gives it (used to compare with \<open>is_image_blob\<close>).
\<close>

definition has_image_extension :: "string \<Rightarrow> bool" where
  "has_image_extension name = (lower (snd (splitext name)) \<in> set [''.jpg'', ''.jpeg'', ''.png''])"

section \<open>update_moving_average\<close>

text \<open>
  A tensor is the list of its elements, a network the list of its parameter tensors and of
  its buffers. Elements are real numbers: rounding is not modelled. Arithmetic on two
  tensors is elementwise; corresponding tensors of the two networks have one shape.
\<close>

type_synonym tensor = "real list"

record network =
  params :: "tensor list"
  buffers :: "tensor list"

definition ema_tensor :: "real \<Rightarrow> tensor \<Rightarrow> tensor \<Rightarrow> tensor" where
  "ema_tensor decay target_param online_param =
     map2 (\<lambda>t p. decay * t + (1 - decay) * p) target_param online_param"

text \<open>The loop over \<open>zip(ema_model.parameters(), model.parameters())\<close>.\<close>

fun ema_params :: "real \<Rightarrow> tensor list \<Rightarrow> tensor list \<Rightarrow> tensor list" where
  "ema_params decay [] ps = []"
| "ema_params decay (t # ts) [] = t # ts"
| "ema_params decay (t # ts) (p # ps) = ema_tensor decay t p # ema_params decay ts ps"

definition update_moving_average :: "network \<Rightarrow> network \<Rightarrow> real \<Rightarrow> network" where
  "update_moving_average ema_model model decay =
     ema_model\<lparr>params := ema_params decay (params ema_model) (params model)\<rparr>"


definition same_shape :: "network \<Rightarrow> network \<Rightarrow> bool" where
  "same_shape m m' =
     (map length (params m) = map length (params m') \<and> map length (buffers m) = map length (buffers m'))"

section \<open>Checkpoints\<close>

text \<open>The Python values a checkpoint holds.\<close>

datatype 'o pyval =
    VInt int
  | VFloat real
  | VNet network
  | VOpt 'o
  | VDict "(string \<times> 'o pyval) list"

text \<open>
  What torch does that the program cannot decide: the serialisation, whether an optimizer
  accepts a state, one optimisation step (forward passes, loss, backward pass and
  \<open>optimizer.step()\<close>: the new online network, prediction head and optimizer state, and the
  loss), the batches the loader yields, and the first module of the online network.
\<close>

record ('b, 'o, 'x) torch =
  torch_save :: "'o pyval \<Rightarrow> 'b"
  torch_load :: "'b \<Rightarrow> exn + 'o pyval"
  opt_fits :: "'o \<Rightarrow> 'o \<Rightarrow> bool"
  learn :: "network \<Rightarrow> network \<Rightarrow> network \<Rightarrow> 'o \<Rightarrow> 'x \<Rightarrow> network \<times> network \<times> 'o \<times> real"
  sample :: "int \<Rightarrow> nat \<Rightarrow> 'x"
  backbone :: "network \<Rightarrow> network"

record 'o train_state =
  online_network :: network
  target_network :: network
  prediction_head :: network
  optimizer :: 'o

record config =
  SOURCE_DATA_CONTAINER :: string
  LOCAL_PATCH_CACHE_DIR :: string
  LOCAL_MODEL_OUTPUT_DIR :: string
  PATCH_SIZE :: int
  BATCH_SIZE :: int
  NUM_EPOCHS :: int
  EMA_DECAY :: real
  CONNECTION_STRING :: string
  CHECKPOINT_CONTAINER :: string
  CHECKPOINT_BLOB_NAME :: string

definition default_config :: config where
  "default_config =
     \<lparr>SOURCE_DATA_CONTAINER = ''data'',
      LOCAL_PATCH_CACHE_DIR = ''/mnt/data'',
      LOCAL_MODEL_OUTPUT_DIR = ''/mnt/satellite-resnet2'',
      PATCH_SIZE = 224,
      BATCH_SIZE = 256,
      NUM_EPOCHS = 50,
      EMA_DECAY = 999 / 1000,
      CONNECTION_STRING = ''DefaultEndpointsProtocol=https;AccountName=resnettrainingdata'',
      CHECKPOINT_CONTAINER = ''resnet18'',
      CHECKPOINT_BLOB_NAME = ''checkpoint_epoch_29.pth''\<rparr>"

text \<open>\<open>os.path.join(a, b)\<close> (posixpath, two components).\<close>

definition os_path_join :: "string \<Rightarrow> string \<Rightarrow> string" where
  "os_path_join a b =
     (if b \<noteq> [] \<and> hd b = CHR ''/'' then b
      else if a = [] \<or> last a = CHR ''/'' then a @ b
      else a @ ''/'' @ b)"

text \<open>\<open>checkpoint[key]\<close>.\<close>

definition getitem :: "'o pyval \<Rightarrow> string \<Rightarrow> exn + 'o pyval" where
  "getitem d k =
     (case d of
        VDict kvs \<Rightarrow> (case map_of kvs k of None \<Rightarrow> Inl (Exn ''KeyError'' k) | Some v \<Rightarrow> Inr v)
      | _ \<Rightarrow> Inl (Exn ''TypeError'' ''object is not subscriptable''))"

text \<open>
  \<open>module.load_state_dict(v)\<close> (strict): the state must have the module's shape.
  \<open>module.state_dict()\<close> is \<open>VNet module\<close>.
\<close>

definition load_state_dict :: "network \<Rightarrow> 'o pyval \<Rightarrow> exn + network" where
  "load_state_dict m v =
     (case v of
        VNet sd \<Rightarrow>
          if same_shape sd m then Inr sd
          else Inl (Exn ''RuntimeError'' ''Error(s) in loading state_dict'')
      | _ \<Rightarrow> Inl (Exn ''TypeError'' ''Expected state_dict to be dict-like''))"

definition opt_load_state_dict :: "('b, 'o, 'x) torch \<Rightarrow> 'o \<Rightarrow> 'o pyval \<Rightarrow> exn + 'o" where
  "opt_load_state_dict tc opt v =
     (case v of
        VOpt sd \<Rightarrow>
          if opt_fits tc opt sd then Inr sd
          else Inl (Exn ''ValueError'' ''loaded state dict has a different number of parameter groups'')
      | _ \<Rightarrow> Inl (Exn ''TypeError'' ''state_dict is not a dict''))"

text \<open>\<open>checkpoint['epoch'] + 1\<close>.\<close>

definition plus_one :: "'o pyval \<Rightarrow> exn + 'o pyval" where
  "plus_one v =
     (case v of
        VInt i \<Rightarrow> Inr (VInt (i + 1))
      | VFloat r \<Rightarrow> Inr (VFloat (r + 1))
      | _ \<Rightarrow> Inl (Exn ''TypeError'' ''unsupported operand type(s) for +''))"

text \<open>
  Lines 212 to 222 of \<open>main\<close>: the client, the download into memory and \<open>torch.load\<close>.
\<close>

definition fetch_checkpoint ::
  "'b platform \<Rightarrow> ('b, 'o, 'x) torch \<Rightarrow> config \<Rightarrow> 'b world \<Rightarrow> 'b world \<times> (exn + 'o pyval)" where
  "fetch_checkpoint pf tc cfg w =
     (case connect_err pf (CONNECTION_STRING cfg) of
        Some e \<Rightarrow> (w, Inl e)
      | None \<Rightarrow>
          (case download_blob pf (CHECKPOINT_CONTAINER cfg) (CHECKPOINT_BLOB_NAME cfg) w of
             (w1, Inl e) \<Rightarrow> (w1, Inl e)
           | (w1, Inr checkpoint_bytes) \<Rightarrow> (w1, torch_load tc checkpoint_bytes)))"

text \<open>
  Lines 226 to 230: the four \<open>load_state_dict\<close> calls and the start epoch, in the order of
  the source. The state returned with an exception is the state at the raise.
\<close>

definition restore_state ::
  "('b, 'o, 'x) torch \<Rightarrow> 'o pyval \<Rightarrow> 'o train_state \<Rightarrow> 'o train_state \<times> (exn + 'o pyval)" where
  "restore_state tc checkpoint ts =
     (case getitem checkpoint ''online_network_state_dict'' of
        Inl e \<Rightarrow> (ts, Inl e)
      | Inr v1 \<Rightarrow>
     (case load_state_dict (online_network ts) v1 of
        Inl e \<Rightarrow> (ts, Inl e)
      | Inr n1 \<Rightarrow>
     (let ts1 = ts\<lparr>online_network := n1\<rparr> in
      case getitem checkpoint ''target_network_state_dict'' of
        Inl e \<Rightarrow> (ts1, Inl e)
      | Inr v2 \<Rightarrow>
     (case load_state_dict (target_network ts1) v2 of
        Inl e \<Rightarrow> (ts1, Inl e)
      | Inr n2 \<Rightarrow>
     (let ts2 = ts1\<lparr>target_network := n2\<rparr> in
      case getitem checkpoint ''prediction_head_state_dict'' of
        Inl e \<Rightarrow> (ts2, Inl e)
      | Inr v3 \<Rightarrow>
     (case load_state_dict (prediction_head ts2) v3 of
        Inl e \<Rightarrow> (ts2, Inl e)
      | Inr n3 \<Rightarrow>
     (let ts3 = ts2\<lparr>prediction_head := n3\<rparr> in
      case getitem checkpoint ''optimizer_state_dict'' of
        Inl e \<Rightarrow> (ts3, Inl e)
      | Inr v4 \<Rightarrow>
     (case opt_load_state_dict tc (optimizer ts3) v4 of
        Inl e \<Rightarrow> (ts3, Inl e)
      | Inr o4 \<Rightarrow>
     (let ts4 = ts3\<lparr>optimizer := o4\<rparr> in
      case getitem checkpoint ''epoch'' of
        Inl e \<Rightarrow> (ts4, Inl e)
      | Inr v5 \<Rightarrow> (ts4, plus_one v5))))))))))"

text \<open>The \<open>try\<close> block of lines 210 to 232.\<close>

definition load_checkpoint ::
  "'b platform \<Rightarrow> ('b, 'o, 'x) torch \<Rightarrow> config \<Rightarrow> 'o train_state \<Rightarrow> 'b world \<Rightarrow>
     'b world \<times> 'o train_state \<times> (exn + 'o pyval)" where
  "load_checkpoint pf tc cfg ts w =
     (case fetch_checkpoint pf tc cfg w of
        (w1, Inl e) \<Rightarrow> (w1, ts, Inl e)
      | (w1, Inr checkpoint) \<Rightarrow>
          (case restore_state tc checkpoint ts of (ts', r) \<Rightarrow> (w1, ts', r)))"

text \<open>\<open>upload_checkpoint_to_azure\<close>: every exception ends in a warning, none leaves.\<close>

definition upload_checkpoint_to_azure ::
  "'b platform \<Rightarrow> string \<Rightarrow> string \<Rightarrow> string \<Rightarrow> string \<Rightarrow> 'b world \<Rightarrow> 'b world" where
  "upload_checkpoint_to_azure pf connection_string container_name local_file_path blob_name w =
     (case connect_err pf connection_string of
        Some e \<Rightarrow> w
      | None \<Rightarrow>
          (let w1 = (if remote w container_name = None \<and> create_err pf container_name = None
                     then w\<lparr>remote := (remote w)(container_name \<mapsto> [])\<rparr> else w)
           in case files w1 local_file_path of
                None \<Rightarrow> w1
              | Some data \<Rightarrow>
                  (let w2 = w1\<lparr>log := log w1 @ [UploadBlob container_name blob_name]\<rparr>
                   in case put_err pf container_name blob_name of
                        Some e \<Rightarrow> w2
                      | None \<Rightarrow>
                          (case remote w2 container_name of
                             None \<Rightarrow> w2
                           | Some bs \<Rightarrow>
                               w2\<lparr>remote := (remote w2)(container_name \<mapsto>
                                     AList.update blob_name data bs)\<rparr>))))"

section \<open>The training loop\<close>

text \<open>The loop over the batches of one epoch (lines 249 to 271).\<close>

fun train_batches ::
  "('b, 'o, 'x) torch \<Rightarrow> real \<Rightarrow> int \<Rightarrow> 'x list \<Rightarrow> 'o train_state \<times> real \<times> 'b world \<Rightarrow>
     'o train_state \<times> real \<times> 'b world" where
  "train_batches tc decay epoch [] (ts, total_loss, w) = (ts, total_loss, w)"
| "train_batches tc decay epoch (x # xs) (ts, total_loss, w) =
     (case learn tc (online_network ts) (target_network ts) (prediction_head ts) (optimizer ts) x of
        (online', head', opt', loss) \<Rightarrow>
          train_batches tc decay epoch xs
            (\<lparr>online_network = online',
              target_network = update_moving_average (target_network ts) online' decay,
              prediction_head = head',
              optimizer = opt'\<rparr>,
             total_loss + loss,
             w\<lparr>log := log w @ [TrainStep epoch]\<rparr>))"

definition checkpoint_name :: "int \<Rightarrow> string" where
  "checkpoint_name epoch = ''checkpoint_epoch_'' @ str_int (epoch + 1) @ ''.pth''"

definition checkpoint_dict :: "int \<Rightarrow> 'o train_state \<Rightarrow> real \<Rightarrow> 'o pyval" where
  "checkpoint_dict epoch ts avg_loss =
     VDict [(''epoch'', VInt epoch),
            (''online_network_state_dict'', VNet (online_network ts)),
            (''target_network_state_dict'', VNet (target_network ts)),
            (''prediction_head_state_dict'', VNet (prediction_head ts)),
            (''optimizer_state_dict'', VOpt (optimizer ts)),
            (''loss'', VFloat avg_loss)]"

text \<open>Lines 277 to 295: save the checkpoint locally and upload it.\<close>

definition save_checkpoint ::
  "'b platform \<Rightarrow> ('b, 'o, 'x) torch \<Rightarrow> config \<Rightarrow> int \<Rightarrow> 'o train_state \<Rightarrow> real \<Rightarrow> 'b world \<Rightarrow> 'b world" where
  "save_checkpoint pf tc cfg epoch ts avg_loss w =
     (if (epoch + 1) mod 1 = 0 then
        (let checkpoint_save_path = os_path_join (LOCAL_MODEL_OUTPUT_DIR cfg) (checkpoint_name epoch);
             w1 = w\<lparr>files := (files w)(checkpoint_save_path \<mapsto> torch_save tc (checkpoint_dict epoch ts avg_loss)),
                    log := log w @ [SaveCheckpoint checkpoint_save_path]\<rparr>
         in upload_checkpoint_to_azure pf (CONNECTION_STRING cfg) ''resnet18''
              checkpoint_save_path (checkpoint_name epoch) w1)
      else w)"

text \<open>
  One iteration of \<open>for epoch in range(start_epoch, NUM_EPOCHS)\<close>; \<open>n\<close> is
  \<open>len(dataloader)\<close>. Dividing by it raises ZeroDivisionError when it is zero.
\<close>

definition run_epoch ::
  "'b platform \<Rightarrow> ('b, 'o, 'x) torch \<Rightarrow> config \<Rightarrow> nat \<Rightarrow> int \<Rightarrow> 'o train_state \<times> 'b world \<Rightarrow>
     'o train_state \<times> 'b world \<times> exn option" where
  "run_epoch pf tc cfg n epoch s =
     (case s of (ts, w) \<Rightarrow>
        (case train_batches tc (EMA_DECAY cfg) epoch (map (sample tc epoch) [0..<n])
                (ts, 0, w\<lparr>log := log w @ [EpochStart epoch]\<rparr>) of
           (ts1, total_loss, w1) \<Rightarrow>
             if n = 0 then (ts1, w1, Some (Exn ''ZeroDivisionError'' ''float division by zero''))
             else (ts1, save_checkpoint pf tc cfg epoch ts1 (total_loss / real n) w1, None)))"

fun epochs_loop ::
  "'b platform \<Rightarrow> ('b, 'o, 'x) torch \<Rightarrow> config \<Rightarrow> nat \<Rightarrow> int list \<Rightarrow> 'o train_state \<times> 'b world \<Rightarrow>
     'o train_state \<times> 'b world \<times> exn option" where
  "epochs_loop pf tc cfg n [] (ts, w) = (ts, w, None)"
| "epochs_loop pf tc cfg n (epoch # epochs) (ts, w) =
     (case run_epoch pf tc cfg n epoch (ts, w) of
        (ts', w', Some e) \<Rightarrow> (ts', w', Some e)
      | (ts', w', None) \<Rightarrow> epochs_loop pf tc cfg n epochs (ts', w'))"

section \<open>main\<close>

text \<open>How \<open>main()\<close> ends: by an exception, by one of its early returns, or at its last line.\<close>

datatype outcome = Raised exn | Returned string | Finished

text \<open>
  \<open>DataLoader(dataset, batch_size, drop_last=True)\<close>: a batch size that is not positive is
  refused; the length is the number of full batches.
\<close>

definition dataloader_len :: "nat \<Rightarrow> int \<Rightarrow> exn + nat" where
  "dataloader_len n bs =
     (if bs \<le> 0 then Inl (Exn ''ValueError'' ''batch_size should be a positive integer value'')
      else Inr (nat (int n div bs)))"

text \<open>Lines 243 to 301: the training loop and the export of the backbone.\<close>

definition train_and_export ::
  "'b platform \<Rightarrow> ('b, 'o, 'x) torch \<Rightarrow> config \<Rightarrow> nat \<Rightarrow> 'o pyval \<Rightarrow> 'o train_state \<times> 'b world \<Rightarrow>
     'b world \<times> 'o train_state \<times> outcome" where
  "train_and_export pf tc cfg n start_epoch s =
     (case s of (ts, w) \<Rightarrow>
        (case start_epoch of
           VInt i \<Rightarrow>
             (case py_range i (NUM_EPOCHS cfg) 1 of
                Inl e \<Rightarrow> (w, ts, Raised e)
              | Inr epochs \<Rightarrow>
                  (case epochs_loop pf tc cfg n epochs (ts, w) of
                     (ts', w', Some e) \<Rightarrow> (w', ts', Raised e)
                   | (ts', w', None) \<Rightarrow>
                       (let save_path = os_path_join (LOCAL_MODEL_OUTPUT_DIR cfg) ''resnet18_backbone_final.pth''
                        in (w'\<lparr>files := (files w')(save_path \<mapsto>
                                  torch_save tc (VNet (backbone tc (online_network ts')))),
                               log := log w' @ [SaveBackbone save_path]\<rparr>, ts', Finished))))
         | _ \<Rightarrow> (w, ts, Raised (Exn ''TypeError'' ''object cannot be interpreted as an integer''))))"

text \<open>
  Lines 178 to 195: the networks and the optimizer as they are built; the target network is
  a deep copy of the online network.
\<close>

definition initial_state :: "network \<Rightarrow> network \<Rightarrow> 'o \<Rightarrow> 'o train_state" where
  "initial_state online0 head0 opt0 =
     \<lparr>online_network = online0, target_network = online0, prediction_head = head0, optimizer = opt0\<rparr>"

text \<open>
  Lines 168 to 301, after the preprocessing. The initial online network, prediction head
  and optimizer are given.
\<close>

definition train_main ::
  "'b platform \<Rightarrow> ('b, 'o, 'x) torch \<Rightarrow> config \<Rightarrow> network \<Rightarrow> network \<Rightarrow> 'o \<Rightarrow> 'b world \<Rightarrow>
     'b world \<times> 'o train_state \<times> outcome" where
  "train_main pf tc cfg online0 head0 opt0 w =
     (let ts0 = initial_state online0 head0 opt0
      in case dirs w (LOCAL_PATCH_CACHE_DIR cfg) of
           None \<Rightarrow> (w, ts0, Raised (Exn ''FileNotFoundError'' ''No such file or directory''))
         | Some image_paths \<Rightarrow>
             if length image_paths = 0 then (w, ts0, Returned ''Error: No patches found in local cache'')
             else
               (case dataloader_len (length image_paths) (BATCH_SIZE cfg) of
                  Inl e \<Rightarrow> (w, ts0, Raised e)
                | Inr n \<Rightarrow>
                    (case makedirs pf (LOCAL_MODEL_OUTPUT_DIR cfg) w of
                       (w1, Some e) \<Rightarrow> (w1, ts0, Raised e)
                     | (w1, None) \<Rightarrow>
                         (case load_checkpoint pf tc cfg ts0 w1 of
                            (w2, ts', Inl e) \<Rightarrow> (w2, ts', Returned ''FATAL: Failed to load checkpoint from Azure'')
                          | (w2, ts', Inr start_epoch) \<Rightarrow>
                              train_and_export pf tc cfg n start_epoch (ts', w2)))))"

definition main ::
  "'b platform \<Rightarrow> ('b, 'o, 'x) torch \<Rightarrow> config \<Rightarrow> network \<Rightarrow> network \<Rightarrow> 'o \<Rightarrow> 'b world \<Rightarrow>
     'b world \<times> 'o train_state \<times> outcome" where
  "main pf tc cfg online0 head0 opt0 w =
     (let ts0 = initial_state online0 head0 opt0
      in if CONNECTION_STRING cfg = [] then
           (w, ts0, Raised (Exn ''ValueError'' ''Azure Storage connection string is not set.''))
         else
           (case preprocess_and_save_locally pf (CONNECTION_STRING cfg) (SOURCE_DATA_CONTAINER cfg)
                   (LOCAL_PATCH_CACHE_DIR cfg) (PATCH_SIZE cfg) w of
              (w1, Some e) \<Rightarrow> (w1, ts0, Raised e)
            | (w1, None) \<Rightarrow> train_main pf tc cfg online0 head0 opt0 w1))"

text \<open>The epochs the training loop entered and the optimisation steps it made, read off the log.\<close>

fun epoch_started :: "event \<Rightarrow> int option" where
  "epoch_started (EpochStart e) = Some e"
| "epoch_started _ = None"

definition epochs_run :: "event list \<Rightarrow> int list" where
  "epochs_run evs = List.map_filter epoch_started evs"

fun is_train_step :: "event \<Rightarrow> bool" where
  "is_train_step (TrainStep e) = True"
| "is_train_step _ = False"

section \<open>Concrete inputs for the examples\<close>

text \<open>A platform on which no call fails and every image decodes to the given size.\<close>

definition reliable_platform :: "nat \<Rightarrow> nat \<Rightarrow> 'b platform" where
  "reliable_platform W H =
     \<lparr>connect_err = (\<lambda>cs. None), mkdir_err = (\<lambda>d. None), list_err = (\<lambda>c. None),
      get_err = (\<lambda>c b. None), put_err = (\<lambda>c b. None), create_err = (\<lambda>c. None),
      image_open = (\<lambda>bytes. Inr (W, H)), patch_err = (\<lambda>b n. None)\<rparr>"

text \<open>
  A world with one remote container holding the given blobs, and one local directory
  (when it is given) holding the given entries.
\<close>

definition small_world ::
  "string \<Rightarrow> (string \<times> 'b) list \<Rightarrow> string \<Rightarrow> (string \<times> patch) list option \<Rightarrow> 'b world" where
  "small_world container blobs d entries =
     \<lparr>remote = (\<lambda>c. if c = container then Some blobs else None),
      dirs = (\<lambda>p. if p = d then entries else None),
      files = (\<lambda>p. None),
      log = []\<rparr>"

section \<open>Reading the log\<close>

text \<open>The blobs for which a task was handed to the pool, in the order of submission.\<close>

fun task_of :: "event \<Rightarrow> string option" where
  "task_of (Task b) = Some b"
| "task_of _ = None"

definition tasks_submitted :: "event list \<Rightarrow> string list" where
  "tasks_submitted evs = List.map_filter task_of evs"

text \<open>Every patch the log says was saved is an entry of the directory it was saved to.\<close>

definition saved_present :: "'b world \<Rightarrow> bool" where
  "saved_present w \<longleftrightarrow>
     (\<forall>d f p. SavePatch d f p \<in> set (log w) \<longrightarrow> (\<exists>es. dirs w d = Some es \<and> f \<in> fst ` set es))"


text \<open>
  A torch whose serialisation keeps the value as it is, whose optimizer accepts every
  state, and whose optimisation step adds the batch to every parameter of the online
  network and reports the loss 1.
\<close>

definition plain_torch :: "(nat pyval, nat, real) torch" where
  "plain_torch =
     \<lparr>torch_save = (\<lambda>v. v), torch_load = (\<lambda>bytes. Inr bytes), opt_fits = (\<lambda>opt sd. True),
      learn = (\<lambda>online target head opt x.
                 (online\<lparr>params := map (map (\<lambda>a. a + x)) (params online)\<rparr>, head, opt + 1, 1)),
      sample = (\<lambda>epoch i. 1),
      backbone = (\<lambda>m. m)\<rparr>"

definition net_a :: network where
  "net_a = \<lparr>params = [[1, 2], [3]], buffers = [[0]]\<rparr>"

definition net_b :: network where
  "net_b = \<lparr>params = [[5, 6], [7]], buffers = [[8]]\<rparr>"

definition net_h :: network where
  "net_h = \<lparr>params = [[4]], buffers = []\<rparr>"

text \<open>A state as a training run leaves it, and the state of a fresh process.\<close>

definition trained_state :: "nat train_state" where
  "trained_state = \<lparr>online_network = net_b, target_network = net_a, prediction_head = net_h, optimizer = 12\<rparr>"

definition fresh_state :: "nat train_state" where
  "fresh_state = initial_state net_a net_h 0"

text \<open>A short run: three epochs, batches of two patches.\<close>

definition short_config :: "string \<Rightarrow> config" where
  "short_config blob_name =
     default_config\<lparr>BATCH_SIZE := 2, NUM_EPOCHS := 3, CONNECTION_STRING := ''cs'',
                    CHECKPOINT_BLOB_NAME := blob_name\<rparr>"

text \<open>
  A world in which the container resnet18 holds the checkpoint saved after epoch 0 from
  \<open>trained_state\<close>, and the patch cache holds the given number of patches.
\<close>

definition resumable_world :: "nat \<Rightarrow> nat pyval world" where
  "resumable_world k =
     small_world ''resnet18'' [(''checkpoint_epoch_1.pth'', checkpoint_dict 0 trained_state (1 / 2))]
       ''/mnt/data'' (Some (map (\<lambda>i. (patch_filename ''a.png'' i, Patch ''a.png'' (0, 0, 224, 224))) [0..<k]))"

section \<open>Properties of the helpers\<close>

declare digits10.simps [simp del]













lemma makedirs_ok:
  assumes "mkdir_err pf d = None"
  shows "\<exists>w1. makedirs pf d w = (w1, None) \<and> log w1 = log w \<and> remote w1 = remote w \<and>
           (saved_present w \<longrightarrow> saved_present w1)"
proof (cases "dirs w d")
  case None
  have "saved_present (w\<lparr>dirs := (dirs w)(d \<mapsto> [])\<rparr>)" if "saved_present w"
    using that None unfolding saved_present_def by (simp, metis option.distinct(1))
  then show ?thesis using assms None by (simp add: makedirs_def)
next
  case (Some es)
  then show ?thesis using assms by (simp add: makedirs_def)
qed





subsection \<open>The moving average\<close>

lemma length_ema_params: "length (ema_params decay ts ps) = length ts"
  by (induction decay ts ps rule: ema_params.induct) simp_all


lemma ema_params_rest:
  "length ps \<le> i \<Longrightarrow> i < length ts \<Longrightarrow> ema_params decay ts ps ! i = ts ! i"
proof (induction decay ts ps arbitrary: i rule: ema_params.induct)
  case (3 decay t ts p ps)
  then show ?case by (cases i) simp_all
qed simp_all












subsection \<open>What a worker changes\<close>

lemma tasks_submitted_append:
  "tasks_submitted (xs @ ys) = tasks_submitted xs @ tasks_submitted ys"
  by (simp add: tasks_submitted_def List.map_filter_def)

lemma save_patch_inv:
  assumes "save_patch pf b d ps x y n w = (w', r)"
  shows "tasks_submitted (log w') = tasks_submitted (log w) \<and>
         (saved_present w \<longrightarrow> saved_present w')"
proof (cases "patch_err pf b n = None \<and> dirs w d \<noteq> None")
  case False
  then have "w' = w" using assms by (auto simp: save_patch_def Let_def split: option.splits)
  then show ?thesis by simp
next
  case True
  then obtain es where es: "dirs w d = Some es" by auto
  let ?f = "patch_filename b n" and ?p = "Patch b (x, y, x + ps, y + ps)"
  have w': "w' = w\<lparr>dirs := (dirs w)(d \<mapsto> AList.update ?f ?p es),
                   log := log w @ [SavePatch d ?f ?p]\<rparr>"
    using assms True es by (simp add: save_patch_def Let_def)
  have t: "tasks_submitted (log w') = tasks_submitted (log w)"
    by (simp add: w' tasks_submitted_append) (simp add: tasks_submitted_def List.map_filter_def)
  have s: "saved_present w'" if sp: "saved_present w"
    unfolding saved_present_def
  proof (intro allI impI)
    fix d' f' p' assume ev: "SavePatch d' f' p' \<in> set (log w')"
    show "\<exists>es'. dirs w' d' = Some es' \<and> f' \<in> fst ` set es'"
    proof (cases "SavePatch d' f' p' \<in> set (log w)")
      case True
      then obtain es0 where es0: "dirs w d' = Some es0" "f' \<in> fst ` set es0"
        using sp unfolding saved_present_def by blast
      show ?thesis
      proof (cases "d' = d")
        case True
        then have "es0 = es" using es es0(1) by simp
        then show ?thesis using True es0(2) by (simp add: w' dom_update)
      next
        case False
        then show ?thesis using es0 by (simp add: w')
      qed
    next
      case False
      then have "d' = d" "f' = ?f" using ev by (simp_all add: w')
      then show ?thesis by (simp add: w' dom_update)
    qed
  qed
  show ?thesis using t s by blast
qed

lemma cols_loop_inv:
  "cols_loop pf b d ps y xs (w, n) = (w', r) \<Longrightarrow>
     tasks_submitted (log w') = tasks_submitted (log w) \<and> (saved_present w \<longrightarrow> saved_present w')"
proof (induction xs arbitrary: w n)
  case Nil
  then show ?case by simp
next
  case (Cons x xs)
  obtain w1 r1 where sp: "save_patch pf b d ps x y n w = (w1, r1)" by (cases "save_patch pf b d ps x y n w")
  note i1 = save_patch_inv [OF sp]
  show ?case
  proof (cases r1)
    case None
    then have "cols_loop pf b d ps y xs (w1, n + 1) = (w', r)" using Cons.prems sp by simp
    from Cons.IH [OF this] i1 show ?thesis by simp
  next
    case (Some e)
    then have "w' = w1" using Cons.prems sp by simp
    then show ?thesis using i1 by simp
  qed
qed

lemma rows_loop_inv:
  "rows_loop pf b d ps width ys (w, n) = (w', r) \<Longrightarrow>
     tasks_submitted (log w') = tasks_submitted (log w) \<and> (saved_present w \<longrightarrow> saved_present w')"
proof (induction ys arbitrary: w n)
  case Nil
  then show ?case by simp
next
  case (Cons y ys)
  show ?case
  proof (cases "py_range 0 (width - ps + 1) ps")
    case (Inl e)
    then have "w' = w" using Cons.prems by simp
    then show ?thesis by simp
  next
    case (Inr xs)
    obtain w1 r1 where cl: "cols_loop pf b d ps y xs (w, n) = (w1, r1)"
      by (cases "cols_loop pf b d ps y xs (w, n)")
    note i1 = cols_loop_inv [OF cl]
    show ?thesis
    proof (cases r1)
      case (Inl e)
      then have "w' = w1" using Cons.prems Inr cl by simp
      then show ?thesis using i1 by simp
    next
      case (Inr m)
      then have "rows_loop pf b d ps width ys (w1, m) = (w', r)"
        using Cons.prems \<open>py_range 0 (width - ps + 1) ps = Inr xs\<close> cl by simp
      from Cons.IH [OF this] i1 show ?thesis by simp
    qed
  qed
qed

lemma download_blob_log:
  "download_blob pf c b w = (w', r) \<Longrightarrow> w' = w\<lparr>log := log w @ [DownloadBlob c b]\<rparr>"
  by (auto simp: download_blob_def Let_def split: option.splits)

lemma log_append_saved:
  assumes "\<And>d f p. ev \<noteq> SavePatch d f p" and sp: "saved_present w"
  shows "saved_present (w\<lparr>log := log w @ [ev]\<rparr>)"
  unfolding saved_present_def
proof (intro allI impI)
  fix d f p assume "SavePatch d f p \<in> set (log (w\<lparr>log := log w @ [ev]\<rparr>))"
  then have "SavePatch d f p \<in> set (log w)" using assms(1) by auto
  then obtain es where "dirs w d = Some es" "f \<in> fst ` set es"
    using sp unfolding saved_present_def by blast
  then show "\<exists>es. dirs (w\<lparr>log := log w @ [ev]\<rparr>) d = Some es \<and> f \<in> fst ` set es" by simp
qed

lemma log_only_inv:
  assumes "w' = w\<lparr>log := log w @ [ev]\<rparr>" and "task_of ev = None" and "\<And>d f p. ev \<noteq> SavePatch d f p"
  shows "tasks_submitted (log w') = tasks_submitted (log w) \<and> (saved_present w \<longrightarrow> saved_present w')"
proof -
  have t: "tasks_submitted (log w') = tasks_submitted (log w)"
    using assms(1,2) by (simp add: tasks_submitted_def List.map_filter_def)
  show ?thesis using t log_append_saved [OF assms(3)] assms(1) by blast
qed

lemma process_blob_try_inv:
  assumes "process_blob_try pf b src d ps w = (w', r)"
  shows "tasks_submitted (log w') = tasks_submitted (log w) \<and> (saved_present w \<longrightarrow> saved_present w')"
proof -
  obtain w1 r1 where dl: "download_blob pf src b w = (w1, r1)" by (cases "download_blob pf src b w")
  have i1: "tasks_submitted (log w1) = tasks_submitted (log w) \<and> (saved_present w \<longrightarrow> saved_present w1)"
    by (rule log_only_inv [OF download_blob_log [OF dl]]) simp_all
  show ?thesis
  proof (cases "\<exists>img W H ys. r1 = Inr img \<and> image_open pf img = Inr (W, H) \<and>
                  py_range 0 (int H - ps + 1) ps = Inr ys")
    case True
    then obtain img W H ys where h: "r1 = Inr img" "image_open pf img = Inr (W, H)"
        "py_range 0 (int H - ps + 1) ps = Inr ys" by blast
    then have "rows_loop pf b d ps (int W) ys (w1, 0) = (w', r)"
      using assms dl by (simp add: process_blob_try_def)
    from rows_loop_inv [OF this] i1 show ?thesis by simp
  next
    case False
    then have "w' = w1"
      using assms dl by (auto simp: process_blob_try_def split: sum.splits prod.splits)
    then show ?thesis using i1 by simp
  qed
qed

lemma process_blob_inv:
  assumes "process_blob pf (b, cs, src, d, ps) w = (w', r)"
  shows "tasks_submitted (log w') = tasks_submitted (log w) \<and> (saved_present w \<longrightarrow> saved_present w')"
proof (cases "connect_err pf cs")
  case (Some e)
  then have "w' = w" using assms by (simp add: process_blob_def)
  then show ?thesis by simp
next
  case None
  obtain w1 r1 where t: "process_blob_try pf b src d ps w = (w1, r1)"
    by (cases "process_blob_try pf b src d ps w")
  then have "w' = w1" using assms None by (auto simp: process_blob_def split: sum.splits)
  then show ?thesis using process_blob_try_inv [OF t] by simp
qed

text \<open>Once the client is built, a worker returns a message whatever happens inside.\<close>

lemma process_blob_returns:
  assumes "connect_err pf cs = None"
  shows "\<exists>msg. snd (process_blob pf (b, cs, src, d, ps) w) = Inr msg \<and>
           (msg = ''Processed '' @ b \<or> (\<exists>e. msg = ''Failed to process '' @ b @ '': '' @ exn_str e))"
  using assms by (auto simp: process_blob_def split: prod.splits sum.splits)

lemma pool_imap_inv:
  assumes "connect_err pf cs = None"
  shows "\<exists>w' msgs. pool_imap pf (map (\<lambda>b. (b, cs, src, d, ps)) bs) w = (w', Inr msgs) \<and>
           length msgs = length bs \<and>
           (\<forall>i < length bs. msgs ! i = ''Processed '' @ bs ! i \<or>
                (\<exists>e. msgs ! i = ''Failed to process '' @ bs ! i @ '': '' @ exn_str e)) \<and>
           tasks_submitted (log w') = tasks_submitted (log w) @ bs \<and>
           (saved_present w \<longrightarrow> saved_present w')"
proof (induction bs arbitrary: w)
  case Nil
  then show ?case by simp
next
  case (Cons b bs)
  let ?w0 = "w\<lparr>log := log w @ [Task b]\<rparr>"
  obtain w1 r1 where pb: "process_blob pf (b, cs, src, d, ps) ?w0 = (w1, r1)"
    by (cases "process_blob pf (b, cs, src, d, ps) ?w0")
  from process_blob_returns [OF assms, of b src d ps ?w0] pb obtain msg where
    msg: "r1 = Inr msg" "msg = ''Processed '' @ b \<or> (\<exists>e. msg = ''Failed to process '' @ b @ '': '' @ exn_str e)"
    by auto
  have i0: "tasks_submitted (log ?w0) = tasks_submitted (log w) @ [b]"
    by (simp add: tasks_submitted_def List.map_filter_def)
  have s0: "saved_present w \<longrightarrow> saved_present ?w0"
    using log_append_saved [of "Task b" w] by simp
  note i1 = process_blob_inv [OF pb]
  from Cons.IH [of w1] obtain w' msgs where
    ih: "pool_imap pf (map (\<lambda>b. (b, cs, src, d, ps)) bs) w1 = (w', Inr msgs)"
        "length msgs = length bs"
        "\<forall>i < length bs. msgs ! i = ''Processed '' @ bs ! i \<or>
                (\<exists>e. msgs ! i = ''Failed to process '' @ bs ! i @ '': '' @ exn_str e)"
        "tasks_submitted (log w') = tasks_submitted (log w1) @ bs"
        "saved_present w1 \<longrightarrow> saved_present w'"
    by blast
  have r: "pool_imap pf (map (\<lambda>b. (b, cs, src, d, ps)) (b # bs)) w = (w', Inr (msg # msgs))"
    using pb msg(1) ih(1) by simp
  have m: "\<forall>i < length (b # bs). (msg # msgs) ! i = ''Processed '' @ (b # bs) ! i \<or>
                (\<exists>e. (msg # msgs) ! i = ''Failed to process '' @ (b # bs) ! i @ '': '' @ exn_str e)"
  proof (intro allI impI)
    fix i assume "i < length (b # bs)"
    then show "(msg # msgs) ! i = ''Processed '' @ (b # bs) ! i \<or>
                (\<exists>e. (msg # msgs) ! i = ''Failed to process '' @ (b # bs) ! i @ '': '' @ exn_str e)"
      using msg(2) ih(3) by (cases i) auto
  qed
  have t: "tasks_submitted (log w') = tasks_submitted (log w) @ (b # bs)"
    using ih(4) i1 i0 by simp
  have s: "saved_present w \<longrightarrow> saved_present w'"
    using s0 i1 ih(5) by blast
  show ?case using r m t s ih(2) by (intro exI [of _ w'] exI [of _ "msg # msgs"]) simp
qed

subsection \<open>The orchestrator\<close>

text \<open>
  C6. When the cache directory exists and has at least one entry,
  \<open>preprocess_and_save_locally\<close> returns at once: the world is left as it was, so nothing is
  listed, downloaded or saved (the log gains no event).
\<close>

theorem preprocess_cache_hit:
  assumes "dirs w local_target_dir = Some es" and "es \<noteq> []"
  shows "preprocess_and_save_locally pf cs source_container local_target_dir ps w = (w, None) \<and>
         log (fst (preprocess_and_save_locally pf cs source_container local_target_dir ps w)) = log w"
  using assms by (simp add: preprocess_and_save_locally_def)

theorem preprocess_cache_hit_witness:
  "preprocess_and_save_locally (reliable_platform 448 448 :: nat platform) ''cs'' ''data'' ''/mnt/data'' 224
     (small_world ''data'' [(''a.png'', 7)] ''/mnt/data''
        (Some (map (\<lambda>i. (patch_filename ''old'' i, Patch ''old'' (0, 0, 224, 224))) [0..<10])))
   = (small_world ''data'' [(''a.png'', 7)] ''/mnt/data''
        (Some (map (\<lambda>i. (patch_filename ''old'' i, Patch ''old'' (0, 0, 224, 224))) [0..<10])), None) \<and>
   log (fst (preprocess_and_save_locally (reliable_platform 448 448 :: nat platform) ''cs'' ''data'' ''/mnt/data'' 224
     (small_world ''data'' [(''a.png'', 7)] ''/mnt/data''
        (Some (map (\<lambda>i. (patch_filename ''old'' i, Patch ''old'' (0, 0, 224, 224))) [0..<10]))))) = []"
  using preprocess_cache_hit [of
      "small_world ''data'' [(''a.png'', 7)] ''/mnt/data''
        (Some (map (\<lambda>i. (patch_filename ''old'' i, Patch ''old'' (0, 0, 224, 224))) [0..<10])) :: nat world"
      "''/mnt/data''"
      "map (\<lambda>i. (patch_filename ''old'' i, Patch ''old'' (0, 0, 224, 224))) [0..<10]"
      "reliable_platform 448 448" "''cs''" "''data''" 224]
  by (simp add: small_world_def)

text \<open>
  On a cache miss, with the directory created, the client built and the listing returned,
  the orchestrator does not raise, and the tasks are the listed names that pass the filter.
\<close>

lemma preprocess_cache_miss:
  assumes "dirs w d = None \<or> dirs w d = Some []"
    and "mkdir_err pf d = None" and "connect_err pf cs = None"
    and "list_err pf src = None" and "remote w src = Some blobs"
  shows "\<exists>w'. preprocess_and_save_locally pf cs src d ps w = (w', None) \<and>
           tasks_submitted (log w') = tasks_submitted (log w) @ filter is_image_blob (map fst blobs) \<and>
           (saved_present w \<longrightarrow> saved_present w')"
proof -
  have miss: "\<not> (case dirs w d of None \<Rightarrow> False | Some es \<Rightarrow> 0 < length es)"
    using assms(1) by auto
  from makedirs_ok [OF assms(2), where w = w] obtain w1 where
    w1: "makedirs pf d w = (w1, None)" "log w1 = log w" "remote w1 = remote w"
        "saved_present w \<longrightarrow> saved_present w1"
    by blast
  let ?w2 = "w1\<lparr>log := log w1 @ [ListBlobs src]\<rparr>"
  have lb: "list_blobs pf src w1 = (?w2, Inr (map fst blobs))"
    using assms(4,5) w1(3) by (simp add: list_blobs_def)
  have t2: "tasks_submitted (log ?w2) = tasks_submitted (log w)"
    using w1(2) by (simp add: tasks_submitted_def List.map_filter_def)
  have s2: "saved_present w \<longrightarrow> saved_present ?w2"
    using w1(4) log_append_saved [of "ListBlobs src" w1] by simp
  let ?bs = "filter is_image_blob (map fst blobs)"
  show ?thesis
  proof (cases "?bs = []")
    case True
    then have "preprocess_and_save_locally pf cs src d ps w = (?w2, None)"
      using miss w1(1) assms(3) lb by (simp add: preprocess_and_save_locally_def)
    then show ?thesis using t2 s2 True by simp
  next
    case False
    from pool_imap_inv [OF assms(3), of src d ps ?bs ?w2] obtain w3 msgs where
      w3: "pool_imap pf (map (\<lambda>b. (b, cs, src, d, ps)) ?bs) ?w2 = (w3, Inr msgs)"
          "tasks_submitted (log w3) = tasks_submitted (log ?w2) @ ?bs"
          "saved_present ?w2 \<longrightarrow> saved_present w3"
      by blast
    have "preprocess_and_save_locally pf cs src d ps w = (w3, None)"
      using miss w1(1) assms(3) lb False w3(1) by (simp add: preprocess_and_save_locally_def)
    then show ?thesis using w3(2,3) t2 s2 by simp
  qed
qed

lemma endswith_append: "endswith (p @ suf) suf"
  by (simp add: endswith_def)

lemma endswith_drop:
  assumes "drop k s = x @ suf"
  shows "endswith s suf"
proof -
  have "s = (take k s @ x) @ suf" using assms by (metis append_take_drop_id append_assoc)
  then show ?thesis using endswith_append by metis
qed

lemma has_image_extension_is_image_blob:
  assumes "has_image_extension name"
  shows "is_image_blob name"
proof -
  let ?ext = "snd (splitext name)"
  have ne: "?ext \<noteq> []" using assms by (auto simp: has_image_extension_def lower_def)
  then obtain k where k: "?ext = drop k name"
    by (auto simp: splitext_def Let_def split: if_splits)
  have dl: "drop k (lower name) = lower ?ext" by (simp add: k lower_def drop_map)
  from assms have "lower ?ext = ''.jpg'' \<or> lower ?ext = ''.jpeg'' \<or> lower ?ext = ''.png''"
    by (simp add: has_image_extension_def)
  then have "endswith (lower name) ''jpg'' \<or> endswith (lower name) ''jpeg'' \<or> endswith (lower name) ''png''"
    using endswith_drop [of k "lower name" "''.''" "''jpg''"]
          endswith_drop [of k "lower name" "''.''" "''jpeg''"]
          endswith_drop [of k "lower name" "''.''" "''png''"] dl
    by auto
  then show ?thesis by (simp add: is_image_blob_def)
qed

text \<open>
  C7, as stated, fails: a listed object whose name has no extension at all is handed to a
  worker when the name ends in the letters jpg.
\<close>

theorem image_extension_counterexample:
  "\<not> has_image_extension ''readmejpg'' \<and>
   tasks_submitted (log (fst (preprocess_and_save_locally (reliable_platform 448 448 :: nat platform)
      ''cs'' ''data'' ''/mnt/data'' 224
      (small_world ''data'' [(''readmejpg'', 7)] ''/mnt/data'' None)))) = [''readmejpg'']"
proof -
  have a: "\<not> has_image_extension ''readmejpg''" by code_simp
  have b: "filter is_image_blob (map fst [(''readmejpg'', 7::nat)]) = [''readmejpg'']" by code_simp
  have h: "dirs (small_world ''data'' [(''readmejpg'', 7)] ''/mnt/data'' None :: nat world) ''/mnt/data'' = None \<or>
           dirs (small_world ''data'' [(''readmejpg'', 7)] ''/mnt/data'' None :: nat world) ''/mnt/data'' = Some []"
       "mkdir_err (reliable_platform 448 448 :: nat platform) ''/mnt/data'' = None"
       "connect_err (reliable_platform 448 448 :: nat platform) ''cs'' = None"
       "list_err (reliable_platform 448 448 :: nat platform) ''data'' = None"
       "remote (small_world ''data'' [(''readmejpg'', 7)] ''/mnt/data'' None :: nat world) ''data'' =
          Some [(''readmejpg'', 7)]"
    by (simp_all add: small_world_def reliable_platform_def)
  from preprocess_cache_miss [OF h, of 224] obtain w' where
    "preprocess_and_save_locally (reliable_platform 448 448 :: nat platform)
      ''cs'' ''data'' ''/mnt/data'' 224
      (small_world ''data'' [(''readmejpg'', 7)] ''/mnt/data'' None) = (w', None)"
    "tasks_submitted (log w') =
       tasks_submitted (log (small_world ''data'' [(''readmejpg'', 7)] ''/mnt/data'' None :: nat world)) @
       filter is_image_blob (map fst [(''readmejpg'', 7::nat)])"
    by blast
  then have "tasks_submitted (log (fst (preprocess_and_save_locally (reliable_platform 448 448 :: nat platform)
      ''cs'' ''data'' ''/mnt/data'' 224
      (small_world ''data'' [(''readmejpg'', 7)] ''/mnt/data'' None)))) = [''readmejpg'']"
    by (simp only: b) (simp add: small_world_def tasks_submitted_def)
  then show ?thesis using a by simp
qed

text \<open>
  C7, amended. On a cache miss (the directory is missing or empty), once the directory
  exists, the client is built and the listing is returned, the tasks handed to the pool are
  exactly the listed names whose lower-case form ends with jpg, jpeg or png, in the order of
  the listing; no dot is required before the suffix. Every name with the extension .jpg,
  .jpeg or .png, in any case, passes this filter.
\<close>

theorem preprocess_submits_suffix_matches:
  assumes "dirs w d = None \<or> dirs w d = Some []"
    and "mkdir_err pf d = None" and "connect_err pf cs = None"
    and "list_err pf src = None" and "remote w src = Some blobs"
  shows "tasks_submitted (log (fst (preprocess_and_save_locally pf cs src d ps w))) =
           tasks_submitted (log w) @ filter is_image_blob (map fst blobs) \<and>
         (\<forall>name. is_image_blob name \<longleftrightarrow>
            endswith (lower name) ''jpg'' \<or> endswith (lower name) ''jpeg'' \<or> endswith (lower name) ''png'') \<and>
         (\<forall>name. has_image_extension name \<longrightarrow> is_image_blob name)"
proof -
  from preprocess_cache_miss [OF assms, of ps] obtain w' where
    "preprocess_and_save_locally pf cs src d ps w = (w', None)"
    "tasks_submitted (log w') = tasks_submitted (log w) @ filter is_image_blob (map fst blobs)"
    by blast
  then have a: "tasks_submitted (log (fst (preprocess_and_save_locally pf cs src d ps w))) =
           tasks_submitted (log w) @ filter is_image_blob (map fst blobs)" by simp
  have b: "\<forall>name. is_image_blob name \<longleftrightarrow>
            endswith (lower name) ''jpg'' \<or> endswith (lower name) ''jpeg'' \<or> endswith (lower name) ''png''"
    by (simp add: is_image_blob_def)
  show ?thesis using a b has_image_extension_is_image_blob by blast
qed

lemma filter_example:
  "filter is_image_blob (map fst [(''a.JPG'', 1::nat), (''notes.txt'', 2), (''b/c.jpeg'', 3), (''readmejpg'', 4)])
     = [''a.JPG'', ''b/c.jpeg'', ''readmejpg'']"
  by code_simp

lemma extension_example: "has_image_extension ''a.JPG''"
  by code_simp

theorem preprocess_submits_suffix_matches_witness:
  "tasks_submitted (log (fst (preprocess_and_save_locally (reliable_platform 448 448 :: nat platform)
      ''cs'' ''data'' ''/mnt/data'' 224
      (small_world ''data'' [(''a.JPG'', 1), (''notes.txt'', 2), (''b/c.jpeg'', 3), (''readmejpg'', 4)]
         ''/mnt/data'' (Some []))))) = [''a.JPG'', ''b/c.jpeg'', ''readmejpg''] \<and>
   is_image_blob ''a.JPG''"
proof -
  note t = preprocess_submits_suffix_matches [of
      "small_world ''data'' [(''a.JPG'', 1), (''notes.txt'', 2), (''b/c.jpeg'', 3), (''readmejpg'', 4)]
         ''/mnt/data'' (Some []) :: nat world"
      "''/mnt/data''" "reliable_platform 448 448" "''cs''" "''data''"
      "[(''a.JPG'', 1), (''notes.txt'', 2), (''b/c.jpeg'', 3), (''readmejpg'', 4)]" 224]
  have h: "dirs (small_world ''data'' [(''a.JPG'', 1), (''notes.txt'', 2), (''b/c.jpeg'', 3), (''readmejpg'', 4)]
         ''/mnt/data'' (Some []) :: nat world) ''/mnt/data'' = None \<or>
        dirs (small_world ''data'' [(''a.JPG'', 1), (''notes.txt'', 2), (''b/c.jpeg'', 3), (''readmejpg'', 4)]
         ''/mnt/data'' (Some []) :: nat world) ''/mnt/data'' = Some []"
       "mkdir_err (reliable_platform 448 448 :: nat platform) ''/mnt/data'' = None"
       "connect_err (reliable_platform 448 448 :: nat platform) ''cs'' = None"
       "list_err (reliable_platform 448 448 :: nat platform) ''data'' = None"
       "remote (small_world ''data'' [(''a.JPG'', 1), (''notes.txt'', 2), (''b/c.jpeg'', 3), (''readmejpg'', 4)]
         ''/mnt/data'' (Some []) :: nat world) ''data'' =
          Some [(''a.JPG'', 1), (''notes.txt'', 2), (''b/c.jpeg'', 3), (''readmejpg'', 4)]"
    by (simp_all add: small_world_def reliable_platform_def)
  from conjunct1 [OF t [OF h]] conjunct2 [OF conjunct2 [OF t [OF h]]] extension_example
  show ?thesis
    by (simp only: filter_example) (simp add: small_world_def tasks_submitted_def)
qed





section \<open>Checkpoints and the training loop\<close>

lemma py_range_step_one: "py_range i n 1 = Inr [i..n - 1]"
proof -
  have len: "range_len i n 1 = nat (n - i)" by (simp add: range_len_def)
  have "map (\<lambda>k. i + int k * 1) [0..<nat (n - i)] = [i..n - 1]"
    by (rule nth_equalityI) simp_all
  then show ?thesis by (simp add: py_range_def len)
qed

lemma epochs_run_append: "epochs_run (xs @ ys) = epochs_run xs @ epochs_run ys"
  by (simp add: epochs_run_def List.map_filter_def)

lemma epochs_run_single:
  "epochs_run [EpochStart e] = [e]" "epochs_run [TrainStep e] = []" "epochs_run [SaveCheckpoint p] = []"
  "epochs_run [UploadBlob c b] = []" "epochs_run [DownloadBlob c b] = []" "epochs_run [SaveBackbone p] = []"
  by (simp_all add: epochs_run_def List.map_filter_def)

text \<open>The batches of an epoch touch nothing outside the process but the log.\<close>

lemma train_batches_world:
  "train_batches tc decay epoch xs (ts, acc, w) = (ts', acc', w') \<Longrightarrow>
     remote w' = remote w \<and> files w' = files w \<and> dirs w' = dirs w \<and>
     epochs_run (log w') = epochs_run (log w) \<and>
     filter is_train_step (log w') = filter is_train_step (log w) @ replicate (length xs) (TrainStep epoch)"
proof (induction xs arbitrary: ts acc w)
  case Nil
  then show ?case by simp
next
  case (Cons x xs)
  obtain on' hd' op' loss where l:
    "learn tc (online_network ts) (target_network ts) (prediction_head ts) (optimizer ts) x = (on', hd', op', loss)"
    by (cases "learn tc (online_network ts) (target_network ts) (prediction_head ts) (optimizer ts) x")
  let ?ts1 = "\<lparr>online_network = on', target_network = update_moving_average (target_network ts) on' decay,
               prediction_head = hd', optimizer = op'\<rparr>"
  let ?w1 = "w\<lparr>log := log w @ [TrainStep epoch]\<rparr>"
  have "train_batches tc decay epoch xs (?ts1, acc + loss, ?w1) = (ts', acc', w')"
    using Cons.prems l by simp
  from Cons.IH [OF this] show ?case
    by (simp add: epochs_run_append epochs_run_single replicate_app_Cons_same)
qed

lemma upload_world:
  "files (upload_checkpoint_to_azure pf cs c path b w) = files w \<and>
   dirs (upload_checkpoint_to_azure pf cs c path b w) = dirs w \<and>
   epochs_run (log (upload_checkpoint_to_azure pf cs c path b w)) = epochs_run (log w) \<and>
   filter is_train_step (log (upload_checkpoint_to_azure pf cs c path b w)) = filter is_train_step (log w)"
  by (simp add: upload_checkpoint_to_azure_def Let_def epochs_run_append epochs_run_single
        split: option.splits)

text \<open>
  An upload that meets no failure leaves the bytes of the local file in the container,
  under the given name.
\<close>

lemma upload_stores:
  assumes "connect_err pf cs = None" and "put_err pf c b = None"
    and "remote w c \<noteq> None \<or> create_err pf c = None"
    and "files w path = Some data"
  shows "\<exists>bs. remote (upload_checkpoint_to_azure pf cs c path b w) c = Some bs \<and> map_of bs b = Some data"
proof (cases "remote w c")
  case None
  then show ?thesis
    using assms by (simp add: upload_checkpoint_to_azure_def Let_def)
next
  case (Some bs)
  then show ?thesis
    using assms by (simp add: upload_checkpoint_to_azure_def Let_def update_conv')
qed

lemma save_checkpoint_world:
  "dirs (save_checkpoint pf tc cfg epoch ts avg w) = dirs w \<and>
   epochs_run (log (save_checkpoint pf tc cfg epoch ts avg w)) = epochs_run (log w) \<and>
   filter is_train_step (log (save_checkpoint pf tc cfg epoch ts avg w)) = filter is_train_step (log w)"
  by (simp add: save_checkpoint_def Let_def upload_world epochs_run_append epochs_run_single)

lemma save_checkpoint_file:
  "files (save_checkpoint pf tc cfg epoch ts avg w)
     (os_path_join (LOCAL_MODEL_OUTPUT_DIR cfg) (checkpoint_name epoch)) =
     Some (torch_save tc (checkpoint_dict epoch ts avg))"
  by (simp add: save_checkpoint_def Let_def upload_world)

lemma save_checkpoint_stores:
  assumes "connect_err pf (CONNECTION_STRING cfg) = None"
    and "put_err pf ''resnet18'' (checkpoint_name epoch) = None"
    and "remote w ''resnet18'' \<noteq> None \<or> create_err pf ''resnet18'' = None"
  shows "\<exists>bs. remote (save_checkpoint pf tc cfg epoch ts avg w) ''resnet18'' = Some bs \<and>
              map_of bs (checkpoint_name epoch) = Some (torch_save tc (checkpoint_dict epoch ts avg))"
proof -
  let ?path = "os_path_join (LOCAL_MODEL_OUTPUT_DIR cfg) (checkpoint_name epoch)"
  let ?w1 = "w\<lparr>files := (files w)(?path \<mapsto> torch_save tc (checkpoint_dict epoch ts avg)),
               log := log w @ [SaveCheckpoint ?path]\<rparr>"
  have "\<exists>bs. remote (upload_checkpoint_to_azure pf (CONNECTION_STRING cfg) ''resnet18'' ?path
                 (checkpoint_name epoch) ?w1) ''resnet18'' = Some bs \<and>
             map_of bs (checkpoint_name epoch) = Some (torch_save tc (checkpoint_dict epoch ts avg))"
    by (rule upload_stores) (use assms in simp_all)
  then show ?thesis by (simp add: save_checkpoint_def Let_def)
qed

text \<open>Restoring from the dictionary that \<open>checkpoint_dict\<close> builds.\<close>

lemma restore_saved:
  assumes "same_shape (online_network ts) (online_network ts0)"
    and "same_shape (target_network ts) (target_network ts0)"
    and "same_shape (prediction_head ts) (prediction_head ts0)"
    and "opt_fits tc (optimizer ts0) (optimizer ts)"
  shows "restore_state tc (checkpoint_dict epoch ts avg) ts0 = (ts, Inr (VInt (epoch + 1)))"
  using assms
  by (simp add: restore_state_def checkpoint_dict_def getitem_def load_state_dict_def
        opt_load_state_dict_def plus_one_def Let_def)

lemma fetch_stored:
  assumes "connect_err pf (CONNECTION_STRING cfg) = None"
    and "get_err pf (CHECKPOINT_CONTAINER cfg) (CHECKPOINT_BLOB_NAME cfg) = None"
    and "remote w (CHECKPOINT_CONTAINER cfg) = Some bs"
    and "map_of bs (CHECKPOINT_BLOB_NAME cfg) = Some data"
  shows "fetch_checkpoint pf tc cfg w =
           (w\<lparr>log := log w @ [DownloadBlob (CHECKPOINT_CONTAINER cfg) (CHECKPOINT_BLOB_NAME cfg)]\<rparr>,
            torch_load tc data)"
  using assms by (simp add: fetch_checkpoint_def download_blob_def Let_def)

text \<open>A fetch reads the remote store only, and changes the log only.\<close>

lemma fetch_checkpoint_world:
  assumes "fetch_checkpoint pf tc cfg w = (w', r)"
  shows "w' = w \<or> w' = w\<lparr>log := log w @ [DownloadBlob (CHECKPOINT_CONTAINER cfg) (CHECKPOINT_BLOB_NAME cfg)]\<rparr>"
  using assms
  by (auto simp: fetch_checkpoint_def download_blob_def Let_def split: option.splits prod.splits sum.splits)

lemma fetch_checkpoint_remote:
  assumes "remote v = remote w"
  shows "snd (fetch_checkpoint pf tc cfg v) = snd (fetch_checkpoint pf tc cfg w)"
  using assms
  by (auto simp: fetch_checkpoint_def download_blob_def Let_def split: option.splits)

text \<open>One epoch with at least one batch ends without an exception.\<close>

lemma run_epoch_some_batches:
  assumes "0 < n"
  shows "\<exists>ts' avg wb.
           run_epoch pf tc cfg n epoch (ts, w) =
             (ts', save_checkpoint pf tc cfg epoch ts' avg wb, None) \<and>
           remote wb = remote w \<and>
           epochs_run (log wb) = epochs_run (log w) @ [epoch]"
proof -
  let ?w0 = "w\<lparr>log := log w @ [EpochStart epoch]\<rparr>"
  obtain ts' acc wb where tb:
    "train_batches tc (EMA_DECAY cfg) epoch (map (sample tc epoch) [0..<n]) (ts, 0, ?w0) = (ts', acc, wb)"
    by (cases "train_batches tc (EMA_DECAY cfg) epoch (map (sample tc epoch) [0..<n]) (ts, 0, ?w0)")
  from train_batches_world [OF tb]
  have "remote wb = remote w" "epochs_run (log wb) = epochs_run (log w) @ [epoch]"
    by (simp_all add: epochs_run_append epochs_run_single)
  moreover have "run_epoch pf tc cfg n epoch (ts, w) =
      (ts', save_checkpoint pf tc cfg epoch ts' (acc / real n) wb, None)"
    using assms tb by (simp add: run_epoch_def)
  ultimately show ?thesis by blast
qed

lemma run_epoch_no_batches:
  "run_epoch pf tc cfg 0 epoch (ts, w) =
     (ts, w\<lparr>log := log w @ [EpochStart epoch]\<rparr>, Some (Exn ''ZeroDivisionError'' ''float division by zero''))"
  by (simp add: run_epoch_def)

lemma epochs_loop_some_batches:
  assumes "0 < n"
  shows "\<exists>ts' w'. epochs_loop pf tc cfg n es (ts, w) = (ts', w', None) \<and>
           epochs_run (log w') = epochs_run (log w) @ es"
proof (induction es arbitrary: ts w)
  case Nil
  then show ?case by simp
next
  case (Cons e es)
  from run_epoch_some_batches [OF assms, of pf tc cfg e ts w] obtain ts1 avg wb where
    r: "run_epoch pf tc cfg n e (ts, w) = (ts1, save_checkpoint pf tc cfg e ts1 avg wb, None)"
       "epochs_run (log wb) = epochs_run (log w) @ [e]"
    by blast
  let ?w1 = "save_checkpoint pf tc cfg e ts1 avg wb"
  from Cons.IH [of ts1 ?w1] obtain ts' w' where
    ih: "epochs_loop pf tc cfg n es (ts1, ?w1) = (ts', w', None)"
        "epochs_run (log w') = epochs_run (log ?w1) @ es"
    by blast
  have "epochs_loop pf tc cfg n (e # es) (ts, w) = (ts', w', None)"
    using r(1) ih(1) by simp
  moreover have "epochs_run (log w') = epochs_run (log w) @ (e # es)"
    using ih(2) r(2) by (simp add: save_checkpoint_world)
  ultimately show ?case by blast
qed

lemma checkpoint_name_example:
  "checkpoint_name 0 = ''checkpoint_epoch_1.pth''" "checkpoint_name 1 = ''checkpoint_epoch_2.pth''"
  "checkpoint_name 2 = ''checkpoint_epoch_3.pth''" "checkpoint_name 28 = ''checkpoint_epoch_29.pth''"
  by code_simp+

text \<open>What a resume reads after a save whose upload met no failure.\<close>

lemma load_after_save:
  assumes "connect_err pf (CONNECTION_STRING cfg) = None"
    and "put_err pf ''resnet18'' (checkpoint_name epoch) = None"
    and "remote w ''resnet18'' \<noteq> None \<or> create_err pf ''resnet18'' = None"
    and "remote v = remote (save_checkpoint pf tc cfg epoch ts avg w)"
    and "connect_err pf (CONNECTION_STRING cfg') = None"
    and "CHECKPOINT_CONTAINER cfg' = ''resnet18''"
    and "CHECKPOINT_BLOB_NAME cfg' = checkpoint_name epoch"
    and "get_err pf ''resnet18'' (checkpoint_name epoch) = None"
    and "torch_load tc (torch_save tc (checkpoint_dict epoch ts avg)) = Inr (checkpoint_dict epoch ts avg)"
  shows "fetch_checkpoint pf tc cfg' v =
           (v\<lparr>log := log v @ [DownloadBlob ''resnet18'' (checkpoint_name epoch)]\<rparr>,
            Inr (checkpoint_dict epoch ts avg))"
proof -
  from save_checkpoint_stores [OF assms(1-3), of tc ts avg] obtain bs where
    bs: "remote (save_checkpoint pf tc cfg epoch ts avg w) ''resnet18'' = Some bs"
        "map_of bs (checkpoint_name epoch) = Some (torch_save tc (checkpoint_dict epoch ts avg))"
    by blast
  have "fetch_checkpoint pf tc cfg' v =
          (v\<lparr>log := log v @ [DownloadBlob (CHECKPOINT_CONTAINER cfg') (CHECKPOINT_BLOB_NAME cfg')]\<rparr>,
           torch_load tc (torch_save tc (checkpoint_dict epoch ts avg)))"
    by (rule fetch_stored) (use assms bs in simp_all)
  then show ?thesis using assms(6,7,9) by simp
qed

text \<open>
  C2. A checkpoint is saved from a state after an epoch and its upload meets no failure; a
  later process, whose remote store is as the save left it, resumes from the blob of that
  name, with a serialisation that reads back the value it wrote and with freshly built
  networks and optimizer of the same shapes. Then the checkpoint it reads is the one that
  was saved (the same epoch field and loss, the same four states), and after the four
  \<open>load_state_dict\<close> calls the online network, target network, prediction head and optimizer
  are equal to the saved ones.
\<close>

theorem checkpoint_round_trip:
  assumes "connect_err pf (CONNECTION_STRING cfg) = None"
    and "put_err pf ''resnet18'' (checkpoint_name epoch) = None"
    and "remote w ''resnet18'' \<noteq> None \<or> create_err pf ''resnet18'' = None"
    and "remote v = remote (save_checkpoint pf tc cfg epoch ts avg w)"
    and "connect_err pf (CONNECTION_STRING cfg') = None"
    and "CHECKPOINT_CONTAINER cfg' = ''resnet18''"
    and "CHECKPOINT_BLOB_NAME cfg' = checkpoint_name epoch"
    and "get_err pf ''resnet18'' (checkpoint_name epoch) = None"
    and "torch_load tc (torch_save tc (checkpoint_dict epoch ts avg)) = Inr (checkpoint_dict epoch ts avg)"
    and "same_shape (online_network ts) (online_network ts0)"
    and "same_shape (target_network ts) (target_network ts0)"
    and "same_shape (prediction_head ts) (prediction_head ts0)"
    and "opt_fits tc (optimizer ts0) (optimizer ts)"
  shows "snd (fetch_checkpoint pf tc cfg' v) = Inr (checkpoint_dict epoch ts avg) \<and>
         getitem (checkpoint_dict epoch ts avg) ''epoch'' = Inr (VInt epoch) \<and>
         snd (load_checkpoint pf tc cfg' ts0 v) = (ts, Inr (VInt (epoch + 1))) \<and>
         online_network (fst (snd (load_checkpoint pf tc cfg' ts0 v))) = online_network ts \<and>
         target_network (fst (snd (load_checkpoint pf tc cfg' ts0 v))) = target_network ts \<and>
         prediction_head (fst (snd (load_checkpoint pf tc cfg' ts0 v))) = prediction_head ts \<and>
         optimizer (fst (snd (load_checkpoint pf tc cfg' ts0 v))) = optimizer ts"
proof -
  note f = load_after_save [OF assms(1-9)]
  have r: "restore_state tc (checkpoint_dict epoch ts avg) ts0 = (ts, Inr (VInt (epoch + 1)))"
    by (rule restore_saved [OF assms(10-13)])
  have l: "snd (load_checkpoint pf tc cfg' ts0 v) = (ts, Inr (VInt (epoch + 1)))"
    by (simp add: load_checkpoint_def f r)
  have e: "getitem (checkpoint_dict epoch ts avg) ''epoch'' = Inr (VInt epoch)"
    by (simp add: getitem_def checkpoint_dict_def)
  show ?thesis using f l e by simp
qed

theorem checkpoint_round_trip_witness:
  "snd (load_checkpoint (reliable_platform 224 224) plain_torch (short_config ''checkpoint_epoch_2.pth'')
          fresh_state
          (save_checkpoint (reliable_platform 224 224) plain_torch (short_config ''none'') 1
             trained_state (1 / 2) (small_world ''data'' [] ''/mnt/data'' None)))
     = (trained_state, Inr (VInt 2))"
proof -
  let ?pf = "reliable_platform 224 224 :: nat pyval platform"
  let ?w = "small_world ''data'' [] ''/mnt/data'' None :: nat pyval world"
  let ?v = "save_checkpoint ?pf plain_torch (short_config ''none'') 1 trained_state (1 / 2) ?w"
  have h: "connect_err ?pf (CONNECTION_STRING (short_config ''none'')) = None"
       "put_err ?pf ''resnet18'' (checkpoint_name 1) = None"
       "remote ?w ''resnet18'' \<noteq> None \<or> create_err ?pf ''resnet18'' = None"
       "remote ?v = remote ?v"
       "connect_err ?pf (CONNECTION_STRING (short_config ''checkpoint_epoch_2.pth'')) = None"
       "CHECKPOINT_CONTAINER (short_config ''checkpoint_epoch_2.pth'') = ''resnet18''"
       "CHECKPOINT_BLOB_NAME (short_config ''checkpoint_epoch_2.pth'') = checkpoint_name 1"
       "get_err ?pf ''resnet18'' (checkpoint_name 1) = None"
       "torch_load plain_torch (torch_save plain_torch (checkpoint_dict 1 trained_state (1 / 2))) =
          Inr (checkpoint_dict 1 trained_state (1 / 2))"
       "same_shape (online_network trained_state) (online_network fresh_state)"
       "same_shape (target_network trained_state) (target_network fresh_state)"
       "same_shape (prediction_head trained_state) (prediction_head fresh_state)"
       "opt_fits plain_torch (optimizer fresh_state) (optimizer trained_state)"
    by (simp_all add: reliable_platform_def short_config_def default_config_def checkpoint_name_example
          plain_torch_def same_shape_def trained_state_def fresh_state_def initial_state_def net_a_def net_b_def)
  from checkpoint_round_trip [OF h] show ?thesis by simp
qed

lemma upload_logged:
  assumes "connect_err pf cs = None" and "files w path = Some data"
  shows "UploadBlob c b \<in> set (log (upload_checkpoint_to_azure pf cs c path b w))"
  using assms by (simp add: upload_checkpoint_to_azure_def Let_def split: option.splits)

lemma save_checkpoint_logged:
  assumes "connect_err pf (CONNECTION_STRING cfg) = None"
  shows "UploadBlob ''resnet18'' (checkpoint_name epoch) \<in> set (log (save_checkpoint pf tc cfg epoch ts avg w))"
  unfolding save_checkpoint_def Let_def
  by (simp del: fun_upd_apply) (rule upload_logged [OF assms], simp)

text \<open>
  C10. After a completed epoch (0-based index \<open>epoch\<close>, at least one batch) the checkpoint is
  written to the file checkpoint_epoch_{epoch+1}.pth of the output directory and uploaded to
  the container resnet18 under the same name, and its epoch field is \<open>epoch\<close>. When the upload
  meets no failure the blob of that name holds the saved bytes, and a process that resumes
  from the blob checkpoint_epoch_{N}.pth written after epoch N - 1 starts at epoch N.
\<close>

theorem checkpoint_name_is_resume_epoch:
  assumes "0 < n"
    and "run_epoch pf tc cfg n epoch (ts, w) = (ts1, w1, r)"
    and "connect_err pf (CONNECTION_STRING cfg) = None"
    and "put_err pf ''resnet18'' (checkpoint_name epoch) = None"
    and "create_err pf ''resnet18'' = None"
    and "connect_err pf (CONNECTION_STRING cfg') = None"
    and "CHECKPOINT_CONTAINER cfg' = ''resnet18''"
    and "CHECKPOINT_BLOB_NAME cfg' = ''checkpoint_epoch_'' @ str_int N @ ''.pth''"
    and "N = epoch + 1"
    and "get_err pf ''resnet18'' (checkpoint_name epoch) = None"
    and "\<forall>ck. torch_load tc (torch_save tc ck) = Inr ck"
    and "same_shape (online_network ts1) (online_network ts0)"
    and "same_shape (target_network ts1) (target_network ts0)"
    and "same_shape (prediction_head ts1) (prediction_head ts0)"
    and "opt_fits tc (optimizer ts0) (optimizer ts1)"
  shows "r = None \<and>
         (\<exists>avg. files w1 (os_path_join (LOCAL_MODEL_OUTPUT_DIR cfg) (''checkpoint_epoch_'' @ str_int (epoch + 1) @ ''.pth''))
                  = Some (torch_save tc (checkpoint_dict epoch ts1 avg)) \<and>
                getitem (checkpoint_dict epoch ts1 avg :: 'o pyval) ''epoch'' = Inr (VInt epoch) \<and>
                (\<exists>bs. remote w1 ''resnet18'' = Some bs \<and>
                      map_of bs (''checkpoint_epoch_'' @ str_int (epoch + 1) @ ''.pth'')
                        = Some (torch_save tc (checkpoint_dict epoch ts1 avg)))) \<and>
         UploadBlob ''resnet18'' (''checkpoint_epoch_'' @ str_int (epoch + 1) @ ''.pth'') \<in> set (log w1) \<and>
         snd (snd (load_checkpoint pf tc cfg' ts0 w1)) = Inr (VInt N)"
proof -
  from run_epoch_some_batches [OF assms(1), of pf tc cfg epoch ts w] assms(2) obtain avg wb where
    w1: "w1 = save_checkpoint pf tc cfg epoch ts1 avg wb" and r: "r = None"
    by auto
  have cr: "remote wb ''resnet18'' \<noteq> None \<or> create_err pf ''resnet18'' = None"
    using assms(5) by simp
  have nm: "CHECKPOINT_BLOB_NAME cfg' = checkpoint_name epoch"
    using assms(8,9) by (simp add: checkpoint_name_def)
  have codec: "torch_load tc (torch_save tc (checkpoint_dict epoch ts1 avg)) = Inr (checkpoint_dict epoch ts1 avg)"
    using assms(11) by simp
  have f: "files w1 (os_path_join (LOCAL_MODEL_OUTPUT_DIR cfg) (checkpoint_name epoch))
             = Some (torch_save tc (checkpoint_dict epoch ts1 avg))"
    unfolding w1 by (rule save_checkpoint_file)
  have e: "getitem (checkpoint_dict epoch ts1 avg :: 'o pyval) ''epoch'' = Inr (VInt epoch)"
    by (simp add: getitem_def checkpoint_dict_def)
  from save_checkpoint_stores [OF assms(3,4) cr, of tc ts1 avg] obtain bs where
    bs: "remote w1 ''resnet18'' = Some bs"
        "map_of bs (checkpoint_name epoch) = Some (torch_save tc (checkpoint_dict epoch ts1 avg))"
    unfolding w1 by blast
  have u: "UploadBlob ''resnet18'' (checkpoint_name epoch) \<in> set (log w1)"
    unfolding w1 by (rule save_checkpoint_logged [OF assms(3)])
  have "remote w1 = remote (save_checkpoint pf tc cfg epoch ts1 avg wb)" by (simp add: w1)
  from load_after_save [OF assms(3,4) cr this assms(6,7) nm assms(10) codec]
  have ft: "fetch_checkpoint pf tc cfg' w1 =
           (w1\<lparr>log := log w1 @ [DownloadBlob ''resnet18'' (checkpoint_name epoch)]\<rparr>,
            Inr (checkpoint_dict epoch ts1 avg))" .
  have rs: "restore_state tc (checkpoint_dict epoch ts1 avg) ts0 = (ts1, Inr (VInt (epoch + 1)))"
    by (rule restore_saved [OF assms(12-15)])
  have l: "snd (snd (load_checkpoint pf tc cfg' ts0 w1)) = Inr (VInt N)"
    by (simp add: load_checkpoint_def ft rs assms(9))
  show ?thesis
    using r f e bs u l unfolding checkpoint_name_def by blast
qed

lemma run_epoch_example_shapes:
  "same_shape (online_network (fst (run_epoch (reliable_platform 224 224 :: nat pyval platform) plain_torch
      (short_config ''none'') 1 1 (fresh_state, small_world ''data'' [] ''/mnt/data'' None)))) (online_network fresh_state)"
  "same_shape (target_network (fst (run_epoch (reliable_platform 224 224 :: nat pyval platform) plain_torch
      (short_config ''none'') 1 1 (fresh_state, small_world ''data'' [] ''/mnt/data'' None)))) (target_network fresh_state)"
  "same_shape (prediction_head (fst (run_epoch (reliable_platform 224 224 :: nat pyval platform) plain_torch
      (short_config ''none'') 1 1 (fresh_state, small_world ''data'' [] ''/mnt/data'' None)))) (prediction_head fresh_state)"
  by (simp_all add: run_epoch_def plain_torch_def fresh_state_def initial_state_def net_a_def net_h_def same_shape_def
        update_moving_average_def ema_tensor_def)

theorem checkpoint_name_is_resume_epoch_witness:
  "snd (snd (run_epoch (reliable_platform 224 224 :: nat pyval platform) plain_torch
      (short_config ''none'') 1 1 (fresh_state, small_world ''data'' [] ''/mnt/data'' None))) = None \<and>
   UploadBlob ''resnet18'' ''checkpoint_epoch_2.pth'' \<in> set (log (fst (snd (run_epoch
      (reliable_platform 224 224 :: nat pyval platform) plain_torch
      (short_config ''none'') 1 1 (fresh_state, small_world ''data'' [] ''/mnt/data'' None))))) \<and>
   snd (snd (load_checkpoint (reliable_platform 224 224) plain_torch (short_config ''checkpoint_epoch_2.pth'')
      fresh_state (fst (snd (run_epoch (reliable_platform 224 224 :: nat pyval platform) plain_torch
      (short_config ''none'') 1 1 (fresh_state, small_world ''data'' [] ''/mnt/data'' None)))))) = Inr (VInt 2)"
proof -
  let ?pf = "reliable_platform 224 224 :: nat pyval platform"
  let ?run = "run_epoch ?pf plain_torch (short_config ''none'') 1 1
                (fresh_state, small_world ''data'' [] ''/mnt/data'' None)"
  have s: "str_int (1 + 1) = ''2''" by code_simp
  have h: "(0::nat) < 1"
       "?run = (fst ?run, fst (snd ?run), snd (snd ?run))"
       "connect_err ?pf (CONNECTION_STRING (short_config ''none'')) = None"
       "put_err ?pf ''resnet18'' (checkpoint_name 1) = None"
       "create_err ?pf ''resnet18'' = None"
       "connect_err ?pf (CONNECTION_STRING (short_config ''checkpoint_epoch_2.pth'')) = None"
       "CHECKPOINT_CONTAINER (short_config ''checkpoint_epoch_2.pth'') = ''resnet18''"
       "CHECKPOINT_BLOB_NAME (short_config ''checkpoint_epoch_2.pth'') = ''checkpoint_epoch_'' @ str_int 2 @ ''.pth''"
       "(2::int) = 1 + 1"
       "get_err ?pf ''resnet18'' (checkpoint_name 1) = None"
       "\<forall>ck. torch_load plain_torch (torch_save plain_torch ck) = Inr ck"
    using s by (simp_all add: reliable_platform_def short_config_def default_config_def plain_torch_def)
  have o: "opt_fits plain_torch (optimizer fresh_state) (optimizer (fst ?run))"
    by (simp add: plain_torch_def)
  from checkpoint_name_is_resume_epoch [OF h run_epoch_example_shapes o] s
  show ?thesis by simp
qed

section \<open>main\<close>

lemma load_checkpoint_remote:
  assumes "remote v = remote w"
  shows "snd (load_checkpoint pf tc cfg ts v) = snd (load_checkpoint pf tc cfg ts w)"
proof -
  obtain v1 r where fv: "fetch_checkpoint pf tc cfg v = (v1, r)" by (cases "fetch_checkpoint pf tc cfg v")
  obtain w1 r' where fw: "fetch_checkpoint pf tc cfg w = (w1, r')" by (cases "fetch_checkpoint pf tc cfg w")
  have "r' = r" using fetch_checkpoint_remote [OF assms, of pf tc cfg] fv fw by simp
  then have fw': "fetch_checkpoint pf tc cfg w = (w1, r)" using fw by simp
  show ?thesis
    by (cases r) (simp_all add: load_checkpoint_def fv fw' split: prod.splits)
qed

lemma load_checkpoint_world:
  assumes "load_checkpoint pf tc cfg ts w = (w', ts', r)"
  shows "remote w' = remote w \<and> files w' = files w \<and> dirs w' = dirs w \<and>
         epochs_run (log w') = epochs_run (log w) \<and>
         filter is_train_step (log w') = filter is_train_step (log w)"
proof -
  obtain w1 r1 where f: "fetch_checkpoint pf tc cfg w = (w1, r1)" by (cases "fetch_checkpoint pf tc cfg w")
  have "w' = w1" using assms f by (auto simp: load_checkpoint_def split: sum.splits prod.splits)
  then show ?thesis
    using fetch_checkpoint_world [OF f] by (auto simp: epochs_run_append epochs_run_single)
qed


lemma load_checkpoint_fetched:
  assumes "snd (fetch_checkpoint pf tc cfg w) = Inr checkpoint"
  shows "snd (snd (load_checkpoint pf tc cfg ts w)) = snd (restore_state tc checkpoint ts)"
  using assms by (cases "fetch_checkpoint pf tc cfg w") (simp add: load_checkpoint_def split: prod.splits)

text \<open>A restore that succeeds returns the stored epoch plus one.\<close>

lemma restore_state_start_epoch:
  assumes "snd (restore_state tc checkpoint ts) = Inr start_epoch"
    and "getitem checkpoint ''epoch'' = Inr (VInt e)"
  shows "start_epoch = VInt (e + 1)"
  using assms
  by (auto simp: restore_state_def Let_def plus_one_def split: sum.splits)

text \<open>The loop and the export, from an integer start epoch.\<close>

lemma train_and_export_some_batches:
  assumes "0 < n"
  shows "\<exists>w' ts'. train_and_export pf tc cfg n (VInt s) (ts, w) = (w', ts', Finished) \<and>
           epochs_run (log w') = epochs_run (log w) @ [s..NUM_EPOCHS cfg - 1]"
proof -
  from epochs_loop_some_batches [OF assms, of pf tc cfg "[s..NUM_EPOCHS cfg - 1]" ts w]
  obtain ts' w1 where
    l: "epochs_loop pf tc cfg n [s..NUM_EPOCHS cfg - 1] (ts, w) = (ts', w1, None)"
       "epochs_run (log w1) = epochs_run (log w) @ [s..NUM_EPOCHS cfg - 1]"
    by blast
  show ?thesis
    using l by (simp add: train_and_export_def py_range_step_one Let_def epochs_run_append epochs_run_single)
qed

lemma train_and_export_no_batches:
  assumes "s < NUM_EPOCHS cfg"
  shows "train_and_export pf tc cfg 0 (VInt s) (ts, w) =
           (w\<lparr>log := log w @ [EpochStart s]\<rparr>, ts, Raised (Exn ''ZeroDivisionError'' ''float division by zero''))"
proof -
  have "[s..NUM_EPOCHS cfg - 1] = s # [s + 1..NUM_EPOCHS cfg - 1]"
    using assms by (simp add: upto_rec1)
  then show ?thesis
    by (simp add: train_and_export_def py_range_step_one run_epoch_no_batches)
qed

lemma train_and_export_prefix:
  "\<exists>w' ts' out k. train_and_export pf tc cfg n (VInt s) (ts, w) = (w', ts', out) \<and>
       epochs_run (log w') = epochs_run (log w) @ take k [s..NUM_EPOCHS cfg - 1] \<and>
       (0 < n \<longrightarrow> out = Finished \<and> k = length [s..NUM_EPOCHS cfg - 1])"
proof (cases "0 < n")
  case True
  from train_and_export_some_batches [OF True, of pf tc cfg s ts w] obtain w' ts' where
    "train_and_export pf tc cfg n (VInt s) (ts, w) = (w', ts', Finished)"
    "epochs_run (log w') = epochs_run (log w) @ [s..NUM_EPOCHS cfg - 1]"
    by blast
  then show ?thesis
    by (intro exI [of _ w'] exI [of _ ts'] exI [of _ Finished] exI [of _ "length [s..NUM_EPOCHS cfg - 1]"]) simp
next
  case False
  then have n0: "n = 0" by simp
  show ?thesis
  proof (cases "s < NUM_EPOCHS cfg")
    case True
    then have u: "[s..NUM_EPOCHS cfg - 1] = s # [s + 1..NUM_EPOCHS cfg - 1]" by (simp add: upto_rec1)
    show ?thesis
      unfolding n0 train_and_export_no_batches [OF True]
      by (intro exI [of _ "w\<lparr>log := log w @ [EpochStart s]\<rparr>"] exI [of _ ts]
            exI [of _ "Raised (Exn ''ZeroDivisionError'' ''float division by zero'')"] exI [of _ "Suc 0"])
         (simp add: u epochs_run_append epochs_run_single)
  next
    case False
    then have "[s..NUM_EPOCHS cfg - 1] = []" by simp
    then show ?thesis
      by (simp add: n0 train_and_export_def py_range_step_one Let_def epochs_run_append epochs_run_single)
  qed
qed

text \<open>\<open>main\<close> up to the training loop, when nothing before the loop stops it.\<close>

lemma main_reaches_loop:
  assumes "CONNECTION_STRING cfg \<noteq> []"
    and "preprocess_and_save_locally pf (CONNECTION_STRING cfg) (SOURCE_DATA_CONTAINER cfg)
            (LOCAL_PATCH_CACHE_DIR cfg) (PATCH_SIZE cfg) w = (w1, None)"
    and "dirs w1 (LOCAL_PATCH_CACHE_DIR cfg) = Some image_paths" and "image_paths \<noteq> []"
    and "0 < BATCH_SIZE cfg"
    and "mkdir_err pf (LOCAL_MODEL_OUTPUT_DIR cfg) = None"
    and "snd (snd (load_checkpoint pf tc cfg (initial_state online0 head0 opt0) w1)) = Inr start_epoch"
  shows "\<exists>w2 ts2. main pf tc cfg online0 head0 opt0 w =
             train_and_export pf tc cfg (nat (int (length image_paths) div BATCH_SIZE cfg)) start_epoch (ts2, w2) \<and>
           epochs_run (log w2) = epochs_run (log w1) \<and>
           filter is_train_step (log w2) = filter is_train_step (log w1)"
proof -
  let ?ts0 = "initial_state online0 head0 opt0"
  from makedirs_ok [OF assms(6), where w = w1] obtain wm where
    wm: "makedirs pf (LOCAL_MODEL_OUTPUT_DIR cfg) w1 = (wm, None)" "log wm = log w1" "remote wm = remote w1"
    by blast
  obtain w2 ts2 r where lc: "load_checkpoint pf tc cfg ?ts0 wm = (w2, ts2, r)"
    by (cases "load_checkpoint pf tc cfg ?ts0 wm") auto
  have "snd (snd (load_checkpoint pf tc cfg ?ts0 wm)) = Inr start_epoch"
    using load_checkpoint_remote [OF wm(3), of pf tc cfg ?ts0] assms(7) by simp
  then have r: "r = Inr start_epoch" using lc by simp
  have m: "main pf tc cfg online0 head0 opt0 w =
             train_and_export pf tc cfg (nat (int (length image_paths) div BATCH_SIZE cfg)) start_epoch (ts2, w2)"
    using assms(1-5) wm(1) lc r
    by (simp add: main_def train_main_def dataloader_len_def Let_def)
  from load_checkpoint_world [OF lc] wm(2)
  have "epochs_run (log w2) = epochs_run (log w1)"
       "filter is_train_step (log w2) = filter is_train_step (log w1)" by simp_all
  then show ?thesis using m by blast
qed

text \<open>
  C3. The preprocessing returns, the cache holds at least one patch, the batch size is
  positive, the output directory can be made, and the checkpoint that is fetched stores the
  epoch e and is restored. Then the start epoch is e + 1, and the epochs the loop enters are
  an initial part of e + 1, ..., NUM_EPOCHS - 1, all greater than e: epoch e is never run
  again. When the cache holds at least one full batch, \<open>main\<close> runs all of them and finishes.
\<close>

theorem resume_starts_after_checkpoint_epoch:
  assumes "CONNECTION_STRING cfg \<noteq> []"
    and "preprocess_and_save_locally pf (CONNECTION_STRING cfg) (SOURCE_DATA_CONTAINER cfg)
            (LOCAL_PATCH_CACHE_DIR cfg) (PATCH_SIZE cfg) w = (w1, None)"
    and "dirs w1 (LOCAL_PATCH_CACHE_DIR cfg) = Some image_paths" and "image_paths \<noteq> []"
    and "0 < BATCH_SIZE cfg"
    and "mkdir_err pf (LOCAL_MODEL_OUTPUT_DIR cfg) = None"
    and "snd (fetch_checkpoint pf tc cfg w1) = Inr checkpoint"
    and "getitem checkpoint ''epoch'' = Inr (VInt e)"
    and "snd (restore_state tc checkpoint (initial_state online0 head0 opt0)) = Inr start_epoch"
  shows "start_epoch = VInt (e + 1) \<and>
         (\<exists>w' ts' out k. main pf tc cfg online0 head0 opt0 w = (w', ts', out) \<and>
            epochs_run (log w') = epochs_run (log w1) @ take k [e + 1..NUM_EPOCHS cfg - 1] \<and>
            (\<forall>ep \<in> set (take k [e + 1..NUM_EPOCHS cfg - 1]). e < ep) \<and>
            (BATCH_SIZE cfg \<le> int (length image_paths) \<longrightarrow>
               out = Finished \<and> epochs_run (log w') = epochs_run (log w1) @ [e + 1..NUM_EPOCHS cfg - 1]))"
proof -
  let ?n = "nat (int (length image_paths) div BATCH_SIZE cfg)"
  have st: "start_epoch = VInt (e + 1)"
    by (rule restore_state_start_epoch [OF assms(9,8)])
  have "snd (snd (load_checkpoint pf tc cfg (initial_state online0 head0 opt0) w1)) = Inr (VInt (e + 1))"
    using load_checkpoint_fetched [OF assms(7)] assms(9) st by simp
  from main_reaches_loop [OF assms(1-6) this] obtain w2 ts2 where
    m: "main pf tc cfg online0 head0 opt0 w = train_and_export pf tc cfg ?n (VInt (e + 1)) (ts2, w2)"
       "epochs_run (log w2) = epochs_run (log w1)"
    by blast
  from train_and_export_prefix [of pf tc cfg ?n "e + 1" ts2 w2] obtain w' ts' out k where
    t: "train_and_export pf tc cfg ?n (VInt (e + 1)) (ts2, w2) = (w', ts', out)"
       "epochs_run (log w') = epochs_run (log w2) @ take k [e + 1..NUM_EPOCHS cfg - 1]"
       "0 < ?n \<longrightarrow> out = Finished \<and> k = length [e + 1..NUM_EPOCHS cfg - 1]"
    by (elim exE conjE) (rule that)
  have gt: "\<forall>ep \<in> set (take k [e + 1..NUM_EPOCHS cfg - 1]). e < ep"
  proof
    fix ep assume "ep \<in> set (take k [e + 1..NUM_EPOCHS cfg - 1])"
    then have "ep \<in> set [e + 1..NUM_EPOCHS cfg - 1]" by (rule in_set_takeD)
    then show "e < ep" by simp
  qed
  have full: "out = Finished \<and> epochs_run (log w') = epochs_run (log w1) @ [e + 1..NUM_EPOCHS cfg - 1]"
    if "BATCH_SIZE cfg \<le> int (length image_paths)"
  proof -
    have "0 < int (length image_paths) div BATCH_SIZE cfg"
      using that assms(5) by (simp add: pos_imp_zdiv_pos_iff)
    then have "0 < ?n" by simp
    then show ?thesis using t(2,3) m(2) by simp
  qed
  have "main pf tc cfg online0 head0 opt0 w = (w', ts', out) \<and>
        epochs_run (log w') = epochs_run (log w1) @ take k [e + 1..NUM_EPOCHS cfg - 1]"
    using m t(1,2) by simp
  then show ?thesis using st gt full by blast
qed

lemma resumable_world_fetch:
  "snd (fetch_checkpoint (reliable_platform 224 224) plain_torch (short_config ''checkpoint_epoch_1.pth'')
          (resumable_world k)) = Inr (checkpoint_dict 0 trained_state (1 / 2))"
  by (simp add: fetch_checkpoint_def download_blob_def reliable_platform_def short_config_def
        default_config_def resumable_world_def small_world_def plain_torch_def Let_def)

lemma resumable_world_restore:
  "snd (restore_state plain_torch (checkpoint_dict 0 trained_state (1 / 2)) (initial_state net_a net_h 0))
     = Inr (VInt 1)"
proof -
  have "restore_state plain_torch (checkpoint_dict 0 trained_state (1 / 2)) (initial_state net_a net_h 0)
          = (trained_state, Inr (VInt (0 + 1)))"
    by (rule restore_saved)
       (simp_all add: same_shape_def trained_state_def initial_state_def net_a_def net_b_def plain_torch_def)
  then show ?thesis by simp
qed

lemma resumable_world_preprocess:
  "0 < k \<Longrightarrow>
   preprocess_and_save_locally pf (CONNECTION_STRING (short_config b)) (SOURCE_DATA_CONTAINER (short_config b))
     (LOCAL_PATCH_CACHE_DIR (short_config b)) (PATCH_SIZE (short_config b)) (resumable_world k)
   = (resumable_world k, None)"
  by (simp add: preprocess_and_save_locally_def resumable_world_def small_world_def short_config_def
        default_config_def)

lemma resumable_world_cache:
  "dirs (resumable_world k) (LOCAL_PATCH_CACHE_DIR (short_config b)) =
     Some (map (\<lambda>i. (patch_filename ''a.png'' i, Patch ''a.png'' (0, 0, 224, 224))) [0..<k])"
  by (simp add: resumable_world_def small_world_def short_config_def default_config_def)

theorem resume_starts_after_checkpoint_epoch_witness:
  "snd (snd (main (reliable_platform 224 224) plain_torch (short_config ''checkpoint_epoch_1.pth'')
               net_a net_h 0 (resumable_world 5))) = Finished \<and>
   epochs_run (log (fst (main (reliable_platform 224 224) plain_torch (short_config ''checkpoint_epoch_1.pth'')
               net_a net_h 0 (resumable_world 5)))) = [1, 2]"
proof -
  let ?cfg = "short_config ''checkpoint_epoch_1.pth''"
  let ?pf = "reliable_platform 224 224 :: nat pyval platform"
  let ?paths = "map (\<lambda>i. (patch_filename ''a.png'' i, Patch ''a.png'' (0, 0, 224, 224))) [0..<5]"
  have h: "CONNECTION_STRING ?cfg \<noteq> []"
       "preprocess_and_save_locally ?pf (CONNECTION_STRING ?cfg) (SOURCE_DATA_CONTAINER ?cfg)
          (LOCAL_PATCH_CACHE_DIR ?cfg) (PATCH_SIZE ?cfg) (resumable_world 5) = (resumable_world 5, None)"
       "dirs (resumable_world 5) (LOCAL_PATCH_CACHE_DIR ?cfg) = Some ?paths"
       "?paths \<noteq> []"
       "0 < BATCH_SIZE ?cfg"
       "mkdir_err ?pf (LOCAL_MODEL_OUTPUT_DIR ?cfg) = None"
       "snd (fetch_checkpoint ?pf plain_torch ?cfg (resumable_world 5)) = Inr (checkpoint_dict 0 trained_state (1 / 2))"
       "getitem (checkpoint_dict 0 trained_state (1 / 2) :: nat pyval) ''epoch'' = Inr (VInt 0)"
       "snd (restore_state plain_torch (checkpoint_dict 0 trained_state (1 / 2)) (initial_state net_a net_h 0))
          = Inr (VInt 1)"
    by (simp_all add: resumable_world_preprocess resumable_world_cache resumable_world_fetch
          resumable_world_restore)
       (simp_all add: short_config_def default_config_def reliable_platform_def getitem_def checkpoint_dict_def)
  have e: "log (resumable_world 5) = []" "BATCH_SIZE ?cfg \<le> int (length ?paths)" "NUM_EPOCHS ?cfg = 3"
    by (simp_all add: resumable_world_def small_world_def short_config_def default_config_def)
  have u: "[0 + 1..(3::int) - 1] = [1, 2]" by (simp add: upto_rec1)
  from resume_starts_after_checkpoint_epoch [OF h] e u
  show ?thesis by (auto simp: epochs_run_def)
qed



text \<open>
  C9. The guard of line 169 stops \<open>main\<close> only when the cache has no entry, and the
  loader counts full batches only. So with at least one patch but fewer than a batch, a
  resume that succeeds with a start epoch below NUM_EPOCHS enters the training loop with
  \<open>len(dataloader) = 0\<close>: the first epoch makes no optimisation step and the division of the
  accumulated loss by the number of batches raises ZeroDivisionError, which ends \<open>main\<close>.
\<close>

theorem small_dataset_divides_by_zero:
  assumes "CONNECTION_STRING cfg \<noteq> []"
    and "preprocess_and_save_locally pf (CONNECTION_STRING cfg) (SOURCE_DATA_CONTAINER cfg)
            (LOCAL_PATCH_CACHE_DIR cfg) (PATCH_SIZE cfg) w = (w1, None)"
    and "dirs w1 (LOCAL_PATCH_CACHE_DIR cfg) = Some image_paths"
    and "1 \<le> length image_paths" and "int (length image_paths) < BATCH_SIZE cfg"
    and "mkdir_err pf (LOCAL_MODEL_OUTPUT_DIR cfg) = None"
    and "snd (snd (load_checkpoint pf tc cfg (initial_state online0 head0 opt0) w1)) = Inr (VInt s)"
    and "s < NUM_EPOCHS cfg"
  shows "dataloader_len (length image_paths) (BATCH_SIZE cfg) = Inr 0 \<and>
         (\<exists>w' ts'. main pf tc cfg online0 head0 opt0 w =
                      (w', ts', Raised (Exn ''ZeroDivisionError'' ''float division by zero'')) \<and>
            epochs_run (log w') = epochs_run (log w1) @ [s] \<and>
            filter is_train_step (log w') = filter is_train_step (log w1))"
proof -
  have bs: "0 < BATCH_SIZE cfg" using assms(5) by linarith
  have ne: "image_paths \<noteq> []" using assms(4) by auto
  have z: "int (length image_paths) div BATCH_SIZE cfg = 0"
    using assms(5) by (simp add: div_pos_pos_trivial)
  then have dl: "dataloader_len (length image_paths) (BATCH_SIZE cfg) = Inr 0"
    using bs by (simp add: dataloader_len_def)
  from main_reaches_loop [OF assms(1-3) ne bs assms(6,7)] obtain w2 ts2 where
    m: "main pf tc cfg online0 head0 opt0 w =
          train_and_export pf tc cfg (nat (int (length image_paths) div BATCH_SIZE cfg)) (VInt s) (ts2, w2)"
       "epochs_run (log w2) = epochs_run (log w1)"
       "filter is_train_step (log w2) = filter is_train_step (log w1)"
    by blast
  have "main pf tc cfg online0 head0 opt0 w =
          (w2\<lparr>log := log w2 @ [EpochStart s]\<rparr>, ts2, Raised (Exn ''ZeroDivisionError'' ''float division by zero''))"
    using m(1) z train_and_export_no_batches [OF assms(8), of pf tc ts2 w2] by simp
  moreover have "epochs_run (log (w2\<lparr>log := log w2 @ [EpochStart s]\<rparr>)) = epochs_run (log w1) @ [s]"
    using m(2) by (simp add: epochs_run_append epochs_run_single)
  moreover have "filter is_train_step (log (w2\<lparr>log := log w2 @ [EpochStart s]\<rparr>)) = filter is_train_step (log w1)"
    using m(3) by simp
  ultimately show ?thesis using dl by blast
qed

theorem small_dataset_divides_by_zero_witness:
  "dataloader_len 1 2 = Inr 0 \<and>
   snd (snd (main (reliable_platform 224 224) plain_torch (short_config ''checkpoint_epoch_1.pth'')
               net_a net_h 0 (resumable_world 1))) = Raised (Exn ''ZeroDivisionError'' ''float division by zero'') \<and>
   epochs_run (log (fst (main (reliable_platform 224 224) plain_torch (short_config ''checkpoint_epoch_1.pth'')
               net_a net_h 0 (resumable_world 1)))) = [1] \<and>
   filter is_train_step (log (fst (main (reliable_platform 224 224) plain_torch (short_config ''checkpoint_epoch_1.pth'')
               net_a net_h 0 (resumable_world 1)))) = []"
proof -
  let ?cfg = "short_config ''checkpoint_epoch_1.pth''"
  let ?pf = "reliable_platform 224 224 :: nat pyval platform"
  let ?paths = "map (\<lambda>i. (patch_filename ''a.png'' i, Patch ''a.png'' (0, 0, 224, 224))) [0..<1]"
  have l: "snd (snd (load_checkpoint ?pf plain_torch ?cfg (initial_state net_a net_h 0) (resumable_world 1)))
             = Inr (VInt 1)"
    using load_checkpoint_fetched [OF resumable_world_fetch, of "initial_state net_a net_h 0" 1]
    by (simp add: resumable_world_restore)
  have h: "CONNECTION_STRING ?cfg \<noteq> []"
       "preprocess_and_save_locally ?pf (CONNECTION_STRING ?cfg) (SOURCE_DATA_CONTAINER ?cfg)
          (LOCAL_PATCH_CACHE_DIR ?cfg) (PATCH_SIZE ?cfg) (resumable_world 1) = (resumable_world 1, None)"
       "dirs (resumable_world 1) (LOCAL_PATCH_CACHE_DIR ?cfg) = Some ?paths"
       "1 \<le> length ?paths" "int (length ?paths) < BATCH_SIZE ?cfg"
       "mkdir_err ?pf (LOCAL_MODEL_OUTPUT_DIR ?cfg) = None"
    by (simp_all add: resumable_world_preprocess resumable_world_cache)
       (simp_all add: short_config_def default_config_def reliable_platform_def)
  have n: "1 < NUM_EPOCHS ?cfg"
    by (simp add: short_config_def default_config_def)
  have e: "log (resumable_world 1) = []" "BATCH_SIZE ?cfg = 2" "length ?paths = 1"
    by (simp_all add: resumable_world_def small_world_def short_config_def default_config_def)
  from small_dataset_divides_by_zero [OF h l n] e
  show ?thesis by (auto simp: epochs_run_def)
qed

end
